theory Spec2Isabelle
  imports Main
begin

section \<open>Python values and strings\<close>

text \<open>
  Python strings are modelled as \<^typ>\<open>string\<close>; a character stands for a code point
  below 256.  Values of type \<open>Any\<close> (flags, metadata, parsed configuration documents)
  are modelled by the datatype \<open>pyval\<close>: null, booleans, integers, strings, lists and
  dictionaries (association lists in insertion order).
\<close>

datatype pyval =
    PNone
  | PBool bool
  | PInt int
  | PStr string
  | PList "pyval list"
  | PDict "(pyval \<times> pyval) list"

section \<open>heuristics/base.py\<close>

record HeuristicContext =
  user_input :: string
  interim_result :: "string option"
  metadata :: "(string \<times> pyval) list"

record HeuristicResult =
  modified_input :: "string option"
  notes_txt :: "string option"
  flags :: "(string \<times> pyval) list"
  severity :: string

text \<open>
  A heuristic unit: its \<open>run\<close> either returns a result (\<open>Inr\<close>) or raises an exception
  (\<open>Inl msg\<close>, where \<open>msg\<close> is what \<open>str(e)\<close> gives for the raised exception \<open>e\<close>).
\<close>

record Heuristic =
  h_id :: string
  description :: string
  enabled :: bool
  run :: "HeuristicContext \<Rightarrow> string + HeuristicResult"

section \<open>heuristics/engine.py\<close>

record HeuristicEngine =
  heuristics :: "Heuristic list"

text \<open>\<open>HeuristicEngine._enabled\<close>: the units whose \<open>enabled\<close> attribute is true, in order.\<close>

definition enabled_units :: "Heuristic list \<Rightarrow> Heuristic list" where
  "enabled_units hs = filter enabled hs"

text \<open>The result substituted for a unit that raised (the \<open>except\<close> branch).\<close>

definition heuristic_error :: "Heuristic \<Rightarrow> string \<Rightarrow> HeuristicResult" where
  "heuristic_error h e =
     \<lparr>modified_input = None,
      notes_txt = Some (''heuristic_error: '' @ h_id h @ '': '' @ e),
      flags = [],
      severity = ''warn''\<rparr>"

text \<open>The \<open>try\<close>/\<open>except\<close> around one unit's \<open>run\<close>.\<close>

definition try_run :: "Heuristic \<Rightarrow> HeuristicContext \<Rightarrow> HeuristicResult" where
  "try_run h c = (case run h c of Inl e \<Rightarrow> heuristic_error h e | Inr r \<Rightarrow> r)"

text \<open>
  The body of the \<open>for\<close> loop of \<open>_run\<close>: the state is the working text
  \<open>current_input\<close> and the list \<open>results\<close>.
\<close>

fun run_loop ::
  "Heuristic list \<Rightarrow> HeuristicContext \<Rightarrow> string \<Rightarrow> HeuristicResult list
     \<Rightarrow> string \<times> HeuristicResult list" where
  "run_loop [] ctx current_input results = (current_input, results)"
| "run_loop (h # hs) ctx current_input results =
     (let r = try_run h \<lparr>user_input = current_input,
                         interim_result = interim_result ctx,
                         metadata = metadata ctx\<rparr>;
          current_input' = (case modified_input r of
                              Some m \<Rightarrow> m
                            | None \<Rightarrow> current_input)
      in run_loop hs ctx current_input' (results @ [r]))"

definition engine_run ::
  "HeuristicEngine \<Rightarrow> HeuristicContext \<Rightarrow> string \<times> HeuristicResult list" where
  "engine_run eng ctx =
     run_loop (enabled_units (heuristics eng)) ctx
       (case interim_result ctx of Some ir \<Rightarrow> ir | None \<Rightarrow> user_input ctx) []"

definition run_pre_query ::
  "HeuristicEngine \<Rightarrow> string \<Rightarrow> (string \<times> pyval) list \<Rightarrow> string \<times> HeuristicResult list" where
  "run_pre_query eng ui md =
     engine_run eng \<lparr>user_input = ui, interim_result = None, metadata = md\<rparr>"

definition run_post_result ::
  "HeuristicEngine \<Rightarrow> string \<Rightarrow> string \<Rightarrow> (string \<times> pyval) list
     \<Rightarrow> string \<times> HeuristicResult list" where
  "run_post_result eng ui ir md =
     engine_run eng \<lparr>user_input = ui, interim_result = Some ir, metadata = md\<rparr>"

text \<open>
  The working text as the specification describes it: it starts as the interim result
  when there is one and as the user input otherwise, and after each unit it is that unit's
  \<open>modified_input\<close> when the unit's result carries one.  \<open>working_text hs ctx i\<close> is the
  working text after the first \<open>i\<close> units of \<open>hs\<close>; \<open>seen_by hs ctx i\<close> is the context
  handed to unit \<open>i\<close>.
\<close>

fun working_text :: "Heuristic list \<Rightarrow> HeuristicContext \<Rightarrow> nat \<Rightarrow> string" where
  "working_text hs ctx 0 =
     (case interim_result ctx of Some ir \<Rightarrow> ir | None \<Rightarrow> user_input ctx)"
| "working_text hs ctx (Suc i) =
     (case modified_input
             (try_run (hs ! i) \<lparr>user_input = working_text hs ctx i,
                                interim_result = interim_result ctx,
                                metadata = metadata ctx\<rparr>) of
        Some m \<Rightarrow> m
      | None \<Rightarrow> working_text hs ctx i)"

definition seen_by :: "Heuristic list \<Rightarrow> HeuristicContext \<Rightarrow> nat \<Rightarrow> HeuristicContext" where
  "seen_by hs ctx i =
     \<lparr>user_input = working_text hs ctx i,
      interim_result = interim_result ctx,
      metadata = metadata ctx\<rparr>"

subsection \<open>Example units\<close>

text \<open>
  Three concrete units used to exercise the engine: one that always raises, one that
  rewrites the text it is given, and a disabled one.
\<close>

definition raising_unit :: Heuristic where
  "raising_unit = \<lparr>h_id = ''boom'', description = ''always raises'', enabled = True,
                    run = (\<lambda>c. Inl ''bad'')\<rparr>"

definition shouting_unit :: Heuristic where
  "shouting_unit = \<lparr>h_id = ''shout'', description = ''appends a mark'', enabled = True,
                     run = (\<lambda>c. Inr \<lparr>modified_input = Some (user_input c @ ''!''),
                                      notes_txt = None, flags = [], severity = ''info''\<rparr>)\<rparr>"

definition silent_unit :: Heuristic where
  "silent_unit = \<lparr>h_id = ''silent'', description = ''disabled'', enabled = False,
                   run = (\<lambda>c. Inr \<lparr>modified_input = Some ''never'',
                                    notes_txt = None, flags = [], severity = ''none''\<rparr>)\<rparr>"

definition example_engine :: HeuristicEngine where
  "example_engine = \<lparr>heuristics = [shouting_unit, silent_unit, raising_unit, shouting_unit]\<rparr>"

definition example_ctx :: HeuristicContext where
  "example_ctx = \<lparr>user_input = ''hi'', interim_result = None, metadata = []\<rparr>"


section \<open>Python string operations\<close>

text \<open>
  \<open>str.isspace\<close> on one character, which is also what the pattern \<open>\s\<close> matches:
  the code points 9 to 13, 28 to 32, 133 and 160.
\<close>

definition isspace :: "char \<Rightarrow> bool" where
  "isspace c \<longleftrightarrow>
     c \<in> set [CHR 0x09, CHR 0x0A, CHR 0x0B, CHR 0x0C, CHR 0x0D,
               CHR 0x1C, CHR 0x1D, CHR 0x1E, CHR 0x1F, CHR 0x20, CHR 0x85, CHR 0xA0]"

text \<open>\<open>s.lstrip(chars)\<close>, \<open>s.rstrip(chars)\<close> and \<open>s.strip(chars)\<close> for a set of characters.\<close>

definition strip_chars :: "(char \<Rightarrow> bool) \<Rightarrow> string \<Rightarrow> string" where
  "strip_chars p s = rev (dropWhile p (rev (dropWhile p s)))"

text \<open>\<open>s.strip()\<close>: leading and trailing whitespace removed.\<close>

definition strip :: "string \<Rightarrow> string" where
  "strip s = strip_chars isspace s"

text \<open>\<open>s.startswith(p)\<close>.\<close>

definition startswith :: "string \<Rightarrow> string \<Rightarrow> bool" where
  "startswith s p \<longleftrightarrow> take (length p) s = p"

text \<open>\<open>sub in s\<close>.\<close>

fun contains :: "string \<Rightarrow> string \<Rightarrow> bool" where
  "contains [] sub = (sub = [])"
| "contains (c # cs) sub = (startswith (c # cs) sub \<or> contains cs sub)"

text \<open>
  \<open>s.split(sep)\<close> for a non-empty separator: the pieces between the successive
  occurrences of \<open>sep\<close>, found from the left.  \<open>acc\<close> holds the current piece, reversed.
  (Python raises \<open>ValueError\<close> on an empty separator; the loop only splits on a constant.)
\<close>

function split_acc :: "string \<Rightarrow> string \<Rightarrow> string \<Rightarrow> string list" where
  "split_acc sep acc [] = [rev acc]"
| "split_acc sep acc (c # cs) =
     (if sep \<noteq> [] \<and> startswith (c # cs) sep
      then rev acc # split_acc sep [] (drop (length sep) (c # cs))
      else split_acc sep (c # acc) cs)"
  by pat_completeness auto
termination
  by (relation "measure (\<lambda>(sep, acc, s). length s)") (auto simp: neq_Nil_conv)

definition split :: "string \<Rightarrow> string \<Rightarrow> string list" where
  "split s sep = split_acc sep [] s"

text \<open>\<open>s.lower()\<close>, on the letters A to Z; other characters are left as they are.\<close>

definition lower_char :: "char \<Rightarrow> char" where
  "lower_char c =
     (case map_of (zip ''ABCDEFGHIJKLMNOPQRSTUVWXYZ'' ''abcdefghijklmnopqrstuvwxyz'') c of
        Some d \<Rightarrow> d
      | None \<Rightarrow> c)"

definition lower :: "string \<Rightarrow> string" where
  "lower s = map lower_char s"

section \<open>Regular expressions\<close>

text \<open>
  The fragment of Python's \<open>re\<close> that the plan pattern uses: literal characters,
  the class \<open>\s\<close>, sequence, alternative and repetition.  \<open>LitCI\<close> is a literal under
  \<open>re.IGNORECASE\<close>; the patterns of the source do not use it.
\<close>

datatype atom = Lit char | LitCI char | Space

fun atom_matches :: "atom \<Rightarrow> char \<Rightarrow> bool" where
  "atom_matches (Lit a) c = (c = a)"
| "atom_matches (LitCI a) c = (lower_char c = lower_char a)"
| "atom_matches Space c = isspace c"

datatype rx = Zero | One | Atom atom | Seq rx rx | Alt rx rx | Star rx

definition Opt :: "rx \<Rightarrow> rx" where
  "Opt r = Alt r One"

definition Plus :: "rx \<Rightarrow> rx" where
  "Plus r = Seq r (Star r)"

fun Word :: "string \<Rightarrow> rx" where
  "Word [] = One"
| "Word (c # cs) = Seq (Atom (Lit c)) (Word cs)"

fun WordCI :: "string \<Rightarrow> rx" where
  "WordCI [] = One"
| "WordCI (c # cs) = Seq (Atom (LitCI c)) (WordCI cs)"

text \<open>Matching by derivatives: \<open>nullable r\<close> says that \<open>r\<close> matches the empty string.\<close>

fun nullable :: "rx \<Rightarrow> bool" where
  "nullable Zero = False"
| "nullable One = True"
| "nullable (Atom a) = False"
| "nullable (Seq r s) = (nullable r \<and> nullable s)"
| "nullable (Alt r s) = (nullable r \<or> nullable s)"
| "nullable (Star r) = True"

fun deriv :: "char \<Rightarrow> rx \<Rightarrow> rx" where
  "deriv c Zero = Zero"
| "deriv c One = Zero"
| "deriv c (Atom a) = (if atom_matches a c then One else Zero)"
| "deriv c (Seq r s) =
     (if nullable r then Alt (Seq (deriv c r) s) (deriv c s) else Seq (deriv c r) s)"
| "deriv c (Alt r s) = Alt (deriv c r) (deriv c s)"
| "deriv c (Star r) = Seq (deriv c r) (Star r)"

text \<open>\<open>re.match(r, s)\<close> succeeds: some prefix of \<open>s\<close> is matched by \<open>r\<close>.\<close>

fun re_match :: "rx \<Rightarrow> string \<Rightarrow> bool" where
  "re_match r [] = nullable r"
| "re_match r (c # cs) = (nullable r \<or> re_match (deriv c r) cs)"

text \<open>
  \<open>re.search("^" + r, s, re.MULTILINE)\<close> succeeds: \<open>r\<close> matches at the start of the
  text or right after a newline.  \<open>bol\<close> says that the current position starts a line.
\<close>

fun search_bol :: "rx \<Rightarrow> bool \<Rightarrow> string \<Rightarrow> bool" where
  "search_bol r bol [] = (bol \<and> nullable r)"
| "search_bol r bol (c # cs) =
     ((bol \<and> re_match r (c # cs)) \<or> search_bol r (c = CHR 0x0A) cs)"

definition re_search_multiline :: "rx \<Rightarrow> string \<Rightarrow> bool" where
  "re_search_multiline r s = search_bol r True s"

text \<open>The pattern \<open>\s*(async\s+)?def\s+solve\s*\(\<close> that follows the anchor \<open>^\<close>.\<close>

definition solve_pattern :: rx where
  "solve_pattern =
     Seq (Star (Atom Space))
    (Seq (Opt (Seq (Word ''async'') (Plus (Atom Space))))
    (Seq (Word ''def'')
    (Seq (Plus (Atom Space))
    (Seq (Word ''solve'')
    (Seq (Star (Atom Space))
         (Atom (Lit (CHR ''(''))))))))"

text \<open>
  The test \<open>re.search(r"^\s*(async\s+)?def\s+solve\s*\(", plan, re.MULTILINE)\<close> of
  \<open>AgentLoop.run\<close> and \<open>generate_plan\<close>.
\<close>

definition is_solve_plan :: "string \<Rightarrow> bool" where
  "is_solve_plan plan = re_search_multiline solve_pattern plan"

text \<open>
  The same pattern read without regard to case, as the specification words it
  (the pattern under \<open>re.IGNORECASE\<close>).
\<close>

definition solve_pattern_ignorecase :: rx where
  "solve_pattern_ignorecase =
     Seq (Star (Atom Space))
    (Seq (Opt (Seq (WordCI ''async'') (Plus (Atom Space))))
    (Seq (WordCI ''def'')
    (Seq (Plus (Atom Space))
    (Seq (WordCI ''solve'')
    (Seq (Star (Atom Space))
         (Atom (Lit (CHR ''(''))))))))"

definition matches_solve_ignorecase :: "string \<Rightarrow> bool" where
  "matches_solve_ignorecase plan = re_search_multiline solve_pattern_ignorecase plan"

section \<open>modules/decision.py\<close>

text \<open>
  The tail of \<open>generate_plan\<close> (the \<open>try\<close> block around the model call).  Its argument
  is the outcome of \<open>model.generate_text(prompt)\<close>: \<open>Inl e\<close> when the call raised an
  exception, \<open>Inr raw\<close> when it returned the text \<open>raw\<close>.
\<close>

definition unfence :: "string \<Rightarrow> string" where
  "unfence raw =
     (if startswith raw ''```''
      then (let raw1 = strip (strip_chars (\<lambda>c. c = CHR ''`'') raw)
            in if startswith (lower raw1) ''python''
               then strip (drop (length ''python'') raw1)
               else raw1)
      else raw)"

definition generate_plan :: "string + string \<Rightarrow> string" where
  "generate_plan outcome =
     (case outcome of
        Inl e \<Rightarrow> ''FINAL_ANSWER: [unknown]''
      | Inr text \<Rightarrow>
          (let raw = unfence (strip text)
           in if is_solve_plan raw then raw
              else ''FINAL_ANSWER: [Could not generate valid solve()]''))"

section \<open>core/loop.py\<close>

text \<open>What \<open>run_python_sandbox\<close> returns: a string, or some other object (with its \<open>str\<close>).\<close>

datatype sandbox_value = SStr string | SOther string

text \<open>The arguments the loop passes to \<open>generate_plan\<close>.\<close>

record plan_request =
  req_user_input :: string
  req_tools :: "string list"
  req_prompt_path :: string
  req_step_num :: nat
  req_max_steps :: int

text \<open>
  The collaborators of the loop.  Each is asked once per attempt at most, and may answer
  differently each time: the first argument is the number of the attempt, counted from
  the start of the run.
  \<^item> \<open>perceive n text\<close>: the tools of the servers that perception selects;
  \<^item> \<open>select_decision_prompt_path\<close>: the prompt file for a planning and exploration mode;
  \<^item> \<open>generate_text n req\<close>: the planning model's answer to the prompt built from
    \<open>req\<close> (\<open>Inl\<close>: the call raised; loading and filling the prompt template is taken
    to succeed);
  \<^item> \<open>run_python_sandbox n plan\<close>: the sandbox's result for a plan.
\<close>

record collaborators =
  perceive :: "nat \<Rightarrow> string \<Rightarrow> string list"
  select_decision_prompt_path :: "string \<Rightarrow> string \<Rightarrow> string"
  generate_text :: "nat \<Rightarrow> plan_request \<Rightarrow> string + string"
  run_python_sandbox :: "nat \<Rightarrow> string \<Rightarrow> sandbox_value"

text \<open>The parts of the agent context that the loop only reads.\<close>

record agent_profile =
  ctx_user_input :: string
  session_id :: string
  max_steps :: int
  max_lifelines_per_step :: int
  planning_mode :: string
  exploration_mode :: string

text \<open>
  What the loop does to its surroundings, in order: the calls to the collaborators and
  the calls that write the subtask log and the session memory.
\<close>

datatype event =
    Perception string
  | Planning plan_request
  | Sandbox string
  | LogSubtask string string
  | UpdateSubtaskStatus string string
  | AddToolOutput string sandbox_value bool

text \<open>
  The state the loop changes: the context attributes \<open>step\<close>, \<open>user_input_override\<close>
  and \<open>final_answer\<close>, the local \<open>lifelines_left\<close>, the events so far, and the
  number of attempts started.
\<close>

record loop_state =
  ctx_step :: nat
  user_input_override :: "string option"
  final_answer :: "string option"
  lifelines_left :: int
  events :: "event list"
  attempts :: nat

text \<open>How one pass through the body of the \<open>while\<close> loop ends.\<close>

datatype control =
    Continue
  | Break
  | Return string string
  | Raise string

text \<open>\<open>override or user_input\<close>: the override unless it is \<open>None\<close> or empty.\<close>

definition truthy :: "string option \<Rightarrow> bool" where
  "truthy ov \<longleftrightarrow> (case ov of None \<Rightarrow> False | Some s \<Rightarrow> s \<noteq> [])"

definition select_input :: "string option \<Rightarrow> string \<Rightarrow> string" where
  "select_input ov ui = (case ov of None \<Rightarrow> ui | Some s \<Rightarrow> if s \<noteq> [] then s else ui)"

definition loop_metadata :: "agent_profile \<Rightarrow> nat \<Rightarrow> (string \<times> pyval) list" where
  "loop_metadata cfg step = [(''session_id'', PStr (session_id cfg)), (''step'', PInt (int step))]"

text \<open>The text stored as \<open>user_input_override\<close> when a result is forwarded.\<close>

definition forward_message :: "string \<Rightarrow> string \<Rightarrow> string" where
  "forward_message ui forwarded_input =
     ''Original user task: '' @ ui @ ''\<newline>\<newline>'' @
     ''Your last tool produced this result:\<newline>\<newline>'' @
     forwarded_input @ ''\<newline>\<newline>'' @
     ''If this fully answers the task, return:\<newline>'' @
     ''FINAL_ANSWER: your answer\<newline>\<newline>'' @
     ''Otherwise, return the next FUNCTION_CALL.''"

definition add_events :: "event list \<Rightarrow> loop_state \<Rightarrow> loop_state" where
  "add_events es st = st\<lparr>events := events st @ es\<rparr>"

text \<open>
  The common end of an execution that neither returned nor forwarded (lines 136 to 154):
  the subtask status and the memory are written, then the loop returns or spends a
  lifeline.
\<close>

definition finish_execution ::
  "string \<Rightarrow> sandbox_value \<Rightarrow> bool \<Rightarrow> bool \<Rightarrow> string \<Rightarrow> loop_state \<Rightarrow> control \<times> loop_state" where
  "finish_execution plan result success has_forward answer st =
     (let st1 = add_events
                  [UpdateSubtaskStatus ''solve_sandbox'' (if success then ''success'' else ''failure''),
                   AddToolOutput plan result success]
                  (st\<lparr>final_answer := Some answer\<rparr>)
      in if success \<and> \<not> has_forward
         then (Return ''done'' answer, st1)
         else (Continue, st1\<lparr>lifelines_left := lifelines_left st1 - 1\<rparr>))"

text \<open>
  The forwarding branch (lines 107 to 123): the payload is the second piece of the result
  split at the marker, stripped; the post-result heuristics run over it and their text is
  wrapped into the override.
\<close>

definition forward_override ::
  "HeuristicEngine \<Rightarrow> agent_profile \<Rightarrow> nat \<Rightarrow> string \<Rightarrow> string" where
  "forward_override eng cfg step content =
     forward_message (ctx_user_input cfg)
       (fst (run_post_result eng (ctx_user_input cfg) content (loop_metadata cfg step)))"

text \<open>The execution branch (lines 86 to 154), entered with a plan that has a solve function.\<close>

definition execute ::
  "collaborators \<Rightarrow> HeuristicEngine \<Rightarrow> agent_profile \<Rightarrow> nat \<Rightarrow> nat \<Rightarrow> string
     \<Rightarrow> loop_state \<Rightarrow> control \<times> loop_state" where
  "execute env eng cfg step n plan st =
     (let st1 = add_events [LogSubtask ''solve_sandbox'' ''pending'', Sandbox plan] st
      in case run_python_sandbox env n plan of
           SStr raw \<Rightarrow>
             (let result = strip raw
              in if startswith result ''FINAL_ANSWER:''
                 then (Return ''done'' result,
                       add_events [UpdateSubtaskStatus ''solve_sandbox'' ''success'',
                                   AddToolOutput plan (SStr result) True]
                         (st1\<lparr>final_answer := Some result\<rparr>))
                 else if startswith result ''FURTHER_PROCESSING_REQUIRED:''
                 then (case split result ''FURTHER_PROCESSING_REQUIRED:'' of
                         _ # piece # _ \<Rightarrow>
                           (Break,
                            st1\<lparr>user_input_override :=
                                   Some (forward_override eng cfg step (strip piece))\<rparr>)
                       | _ \<Rightarrow> (Raise ''IndexError'', st1))
                 else if startswith result ''[sandbox error:''
                 then finish_execution plan (SStr result) False
                        (contains result ''FURTHER_PROCESSING_REQUIRED:'')
                        ''FINAL_ANSWER: [Execution failed]'' st1
                 else finish_execution plan (SStr result) True
                        (contains result ''FURTHER_PROCESSING_REQUIRED:'')
                        (''FINAL_ANSWER: '' @ result) st1)
         | SOther shown \<Rightarrow>
             finish_execution plan (SOther shown) False False (''FINAL_ANSWER: '' @ shown) st1)"

text \<open>
  The first half of the body of the \<open>while\<close> loop (lines 41 to 82): the text given to
  perception, the tools it selects, the request to the planner and the plan that comes
  back, each as a function of the state at the start of the pass.
\<close>

definition current_input :: "HeuristicEngine \<Rightarrow> agent_profile \<Rightarrow> nat \<Rightarrow> loop_state \<Rightarrow> string" where
  "current_input eng cfg step st =
     fst (run_pre_query eng (select_input (user_input_override st) (ctx_user_input cfg))
            (loop_metadata cfg step))"

definition selected_tools ::
  "collaborators \<Rightarrow> HeuristicEngine \<Rightarrow> agent_profile \<Rightarrow> nat \<Rightarrow> loop_state \<Rightarrow> string list" where
  "selected_tools env eng cfg step st =
     perceive env (attempts st) (current_input eng cfg step st)"

definition request ::
  "collaborators \<Rightarrow> HeuristicEngine \<Rightarrow> agent_profile \<Rightarrow> nat \<Rightarrow> loop_state \<Rightarrow> plan_request" where
  "request env eng cfg step st =
     \<lparr>req_user_input = select_input (user_input_override st) (ctx_user_input cfg),
      req_tools = selected_tools env eng cfg step st,
      req_prompt_path =
        (if truthy (user_input_override st) then ''prompts/decision_prompt_summarize.txt''
         else select_decision_prompt_path env (planning_mode cfg) (exploration_mode cfg)),
      req_step_num = step + 1,
      req_max_steps = max_steps cfg\<rparr>"

definition plan_text ::
  "collaborators \<Rightarrow> HeuristicEngine \<Rightarrow> agent_profile \<Rightarrow> nat \<Rightarrow> loop_state \<Rightarrow> string" where
  "plan_text env eng cfg step st =
     generate_plan (generate_text env (attempts st) (request env eng cfg step st))"

text \<open>One pass through the body of the \<open>while\<close> loop (lines 41 to 158).\<close>

definition attempt ::
  "collaborators \<Rightarrow> HeuristicEngine \<Rightarrow> agent_profile \<Rightarrow> nat \<Rightarrow> loop_state
     \<Rightarrow> control \<times> loop_state" where
  "attempt env eng cfg step st =
     (let st1 = add_events [Perception (current_input eng cfg step st)]
                  (st\<lparr>attempts := attempts st + 1\<rparr>)
      in if selected_tools env eng cfg step st = [] then (Break, st1)
         else
           (let plan = plan_text env eng cfg step st;
                st2 = add_events [Planning (request env eng cfg step st)] st1
            in if is_solve_plan plan
               then execute env eng cfg step (attempts st) plan st2
               else (Continue, st2\<lparr>lifelines_left := lifelines_left st2 - 1\<rparr>)))"

text \<open>How the \<open>while\<close> loop of one step ends.\<close>

datatype step_end = NextStep | Returned string string | Raised string

function lifeline_loop ::
  "collaborators \<Rightarrow> HeuristicEngine \<Rightarrow> agent_profile \<Rightarrow> nat \<Rightarrow> loop_state
     \<Rightarrow> step_end \<times> loop_state" where
  "lifeline_loop env eng cfg step st =
     (if lifelines_left st \<ge> 0
      then (case attempt env eng cfg step st of
              (Continue, st') \<Rightarrow> lifeline_loop env eng cfg step st'
            | (Break, st') \<Rightarrow> (NextStep, st')
            | (Return status result, st') \<Rightarrow> (Returned status result, st')
            | (Raise e, st') \<Rightarrow> (Raised e, st'))
      else (NextStep, st))"
  by pat_completeness auto
termination
  by (relation "measure (\<lambda>(env, eng, cfg, step, st). nat (lifelines_left st + 1))")
     (auto simp: attempt_def execute_def finish_execution_def add_events_def Let_def
           split: if_splits sandbox_value.splits list.splits)

text \<open>The start of a step (lines 37 and 38): the step is recorded and the lifelines are reset.\<close>

definition step_start :: "agent_profile \<Rightarrow> nat \<Rightarrow> loop_state \<Rightarrow> loop_state" where
  "step_start cfg step st = st\<lparr>ctx_step := step, lifelines_left := max_lifelines_per_step cfg\<rparr>"

text \<open>The \<open>for\<close> loop over the steps, and what follows it.\<close>

fun step_loop ::
  "collaborators \<Rightarrow> HeuristicEngine \<Rightarrow> agent_profile \<Rightarrow> nat list \<Rightarrow> loop_state
     \<Rightarrow> step_end \<times> loop_state" where
  "step_loop env eng cfg [] st =
     (Returned ''done'' ''FINAL_ANSWER: [Max steps reached]'',
      st\<lparr>final_answer := Some ''FINAL_ANSWER: [Max steps reached]''\<rparr>)"
| "step_loop env eng cfg (step # steps) st =
     (case lifeline_loop env eng cfg step (step_start cfg step st) of
        (NextStep, st') \<Rightarrow> step_loop env eng cfg steps st'
      | other \<Rightarrow> other)"

definition initial_state :: loop_state where
  "initial_state =
     \<lparr>ctx_step = 0, user_input_override = None, final_answer = None,
      lifelines_left = 0, events = [], attempts = 0\<rparr>"

definition run_from ::
  "collaborators \<Rightarrow> HeuristicEngine \<Rightarrow> agent_profile \<Rightarrow> loop_state \<Rightarrow> step_end \<times> loop_state" where
  "run_from env eng cfg st = step_loop env eng cfg [0..<nat (max_steps cfg)] st"

definition run_agent ::
  "collaborators \<Rightarrow> HeuristicEngine \<Rightarrow> agent_profile \<Rightarrow> step_end \<times> loop_state" where
  "run_agent env eng cfg = run_from env eng cfg initial_state"

subsection \<open>Example runs\<close>

text \<open>A profile with two steps and one lifeline per step, and an engine with one rewriting unit.\<close>

definition example_profile :: agent_profile where
  "example_profile =
     \<lparr>ctx_user_input = ''task'', session_id = ''s1'', max_steps = 2,
      max_lifelines_per_step = 1, planning_mode = ''conservative'',
      exploration_mode = ''''\<rparr>"

definition plain_engine :: HeuristicEngine where
  "plain_engine = \<lparr>heuristics = [shouting_unit]\<rparr>"

text \<open>
  Collaborators for a run that forwards once: perception always selects a tool, the
  planner always answers with a solve function, and the sandbox asks for further
  processing on the first attempt and gives a final answer afterwards.
\<close>

definition forwarding_run :: collaborators where
  "forwarding_run =
     \<lparr>perceive = (\<lambda>n text. [''search'']),
      select_decision_prompt_path = (\<lambda>pm em. ''prompts/decision_prompt.txt''),
      generate_text = (\<lambda>n req. Inr ''def solve():''),
      run_python_sandbox =
        (\<lambda>n plan. if n = 0 then SStr ''FURTHER_PROCESSING_REQUIRED: 7''
                   else SStr ''FINAL_ANSWER: 49'')\<rparr>"

text \<open>Collaborators whose planning model raises on every call.\<close>

definition failing_planner :: collaborators where
  "failing_planner =
     \<lparr>perceive = (\<lambda>n text. [''search'']),
      select_decision_prompt_path = (\<lambda>pm em. ''prompts/decision_prompt.txt''),
      generate_text = (\<lambda>n req. Inl ''model unavailable''),
      run_python_sandbox = (\<lambda>n plan. SStr ''FINAL_ANSWER: never'')\<rparr>"

text \<open>
  Collaborators whose planning model raises on the first call only and answers with a
  solve function afterwards.
\<close>

definition flaky_planner :: collaborators where
  "flaky_planner =
     \<lparr>perceive = (\<lambda>n text. [''search'']),
      select_decision_prompt_path = (\<lambda>pm em. ''prompts/decision_prompt.txt''),
      generate_text = (\<lambda>n req. if n = 0 then Inl ''model unavailable'' else Inr ''def solve():''),
      run_python_sandbox = (\<lambda>n plan. SStr ''FINAL_ANSWER: 49'')\<rparr>"


text \<open>
  Collaborators whose sandbox gives a plain text that mentions the forwarding marker,
  and collaborators whose sandbox gives a plain text padded with blanks.
\<close>

definition mentioning_run :: collaborators where
  "mentioning_run =
     \<lparr>perceive = (\<lambda>n text. [''search'']),
      select_decision_prompt_path = (\<lambda>pm em. ''prompts/decision_prompt.txt''),
      generate_text = (\<lambda>n req. Inr ''def solve():''),
      run_python_sandbox = (\<lambda>n plan. SStr ''see FURTHER_PROCESSING_REQUIRED: later'')\<rparr>"

definition answering_run :: collaborators where
  "answering_run =
     \<lparr>perceive = (\<lambda>n text. [''search'']),
      select_decision_prompt_path = (\<lambda>pm em. ''prompts/decision_prompt.txt''),
      generate_text = (\<lambda>n req. Inr ''def solve():''),
      run_python_sandbox = (\<lambda>n plan. SStr '' 42 '')\<rparr>"

text \<open>Collaborators whose planning model writes the solve function in capitals.\<close>

definition capitals_planner :: collaborators where
  "capitals_planner =
     \<lparr>perceive = (\<lambda>n text. [''search'']),
      select_decision_prompt_path = (\<lambda>pm em. ''prompts/decision_prompt.txt''),
      generate_text = (\<lambda>n req. Inr ''DEF SOLVE():''),
      run_python_sandbox = (\<lambda>n plan. SStr ''FINAL_ANSWER: never'')\<rparr>"

section \<open>modules/heuristics_loader.py\<close>

text \<open>The ten unit classes of \<open>heuristics/impl.py\<close> and the table \<open>ID_TO_CLASS\<close>.\<close>

datatype heuristic_class =
    InvalidFileDetector
  | InputValidationSystem
  | BannedWordsFilter
  | QueryComplexityAnalyzer
  | ToolUsageOptimizer
  | ErrorPatternDetector
  | ResponseFormatValidator
  | HistoricalPatternRecognizer
  | TimeoutManager
  | QueryIntentMatcher

definition ID_TO_CLASS :: "(string \<times> heuristic_class) list" where
  "ID_TO_CLASS =
     [(''invalid_file_detector'', InvalidFileDetector),
      (''input_validation_system'', InputValidationSystem),
      (''banned_words_filter'', BannedWordsFilter),
      (''query_complexity_analyzer'', QueryComplexityAnalyzer),
      (''tool_usage_optimizer'', ToolUsageOptimizer),
      (''error_pattern_detector'', ErrorPatternDetector),
      (''response_format_validator'', ResponseFormatValidator),
      (''historical_pattern_recognizer'', HistoricalPatternRecognizer),
      (''timeout_manager'', TimeoutManager),
      (''query_intent_matcher'', QueryIntentMatcher)]"

text \<open>
  Creating a unit.  The rules themselves are not modelled here, so the two ways the
  loader creates units are parameters: \<open>new_default c\<close> is \<open>c()\<close>, which cannot fail
  (every field has a default), and \<open>new_with c params\<close> is \<open>c(**params)\<close> for a non-empty
  \<open>params\<close>, which raises (\<open>Inl\<close>) when the parameters are rejected.
\<close>

record constructors =
  new_default :: "heuristic_class \<Rightarrow> Heuristic"
  new_with :: "heuristic_class \<Rightarrow> (pyval \<times> pyval) list \<Rightarrow> string + Heuristic"

definition construct ::
  "constructors \<Rightarrow> heuristic_class \<Rightarrow> (pyval \<times> pyval) list \<Rightarrow> string + Heuristic" where
  "construct ctor c params =
     (if params = [] then Inr (new_default ctor c) else new_with ctor c params)"

text \<open>\<open>default_heuristics()\<close> of \<open>heuristics/impl.py\<close>: the ten units, in this order.\<close>

definition default_heuristics :: "constructors \<Rightarrow> Heuristic list" where
  "default_heuristics ctor =
     map (new_default ctor)
       [InvalidFileDetector, InputValidationSystem, BannedWordsFilter,
        QueryComplexityAnalyzer, ToolUsageOptimizer, ErrorPatternDetector,
        ResponseFormatValidator, HistoricalPatternRecognizer, TimeoutManager,
        QueryIntentMatcher]"

text \<open>The truth value of a Python object, as \<open>not x\<close> tests it.\<close>

fun is_truthy :: "pyval \<Rightarrow> bool" where
  "is_truthy PNone = False"
| "is_truthy (PBool b) = b"
| "is_truthy (PInt i) = (i \<noteq> 0)"
| "is_truthy (PStr s) = (s \<noteq> [])"
| "is_truthy (PList xs) = (xs \<noteq> [])"
| "is_truthy (PDict kvs) = (kvs \<noteq> [])"

text \<open>\<open>x.get(key, default)\<close>: only a dictionary has the method.\<close>

fun py_get :: "pyval \<Rightarrow> string \<Rightarrow> pyval \<Rightarrow> string + pyval" where
  "py_get (PDict kvs) key dflt =
     (case map_of kvs (PStr key) of Some v \<Rightarrow> Inr v | None \<Rightarrow> Inr dflt)"
| "py_get _ key dflt = Inl ''AttributeError''"

text \<open>
  The items that \<open>for section in (pre + post)\<close> runs over.  Two lists concatenate; two
  strings concatenate as well and are run over character by character; every other pair
  raises \<open>TypeError\<close>, at the sum or at the start of the loop.
\<close>

fun sections_of :: "pyval \<Rightarrow> pyval \<Rightarrow> string + pyval list" where
  "sections_of (PList xs) (PList ys) = Inr (xs @ ys)"
| "sections_of (PStr s) (PStr t) = Inr (map (\<lambda>c. PStr [c]) (s @ t))"
| "sections_of _ _ = Inl ''TypeError''"

text \<open>\<open>ID_TO_CLASS.get(hid)\<close>: a list or a dictionary cannot be hashed.\<close>

fun class_of_id :: "pyval \<Rightarrow> string + heuristic_class option" where
  "class_of_id (PStr s) = Inr (map_of ID_TO_CLASS s)"
| "class_of_id (PList xs) = Inl ''TypeError''"
| "class_of_id (PDict kvs) = Inl ''TypeError''"
| "class_of_id _ = Inr None"

text \<open>The parameters of a section: its items other than \<open>id\<close> and \<open>enabled\<close>.\<close>

fun params_of :: "pyval \<Rightarrow> (pyval \<times> pyval) list" where
  "params_of (PDict kvs) = filter (\<lambda>(k, v). k \<noteq> PStr ''id'' \<and> k \<noteq> PStr ''enabled'') kvs"
| "params_of _ = []"

text \<open>
  The body of the loop for one section: an exception (\<open>Inl\<close>), a skipped section
  (\<open>Inr None\<close>) or a new unit.
\<close>

definition resolve_section :: "constructors \<Rightarrow> pyval \<Rightarrow> string + Heuristic option" where
  "resolve_section ctor section =
     (case py_get section ''enabled'' (PBool True) of
        Inl e \<Rightarrow> Inl e
      | Inr en \<Rightarrow>
          if \<not> is_truthy en then Inr None
          else (case py_get section ''id'' PNone of
                  Inl e \<Rightarrow> Inl e
                | Inr hid \<Rightarrow>
                    (case class_of_id hid of
                       Inl e \<Rightarrow> Inl e
                     | Inr None \<Rightarrow> Inr None
                     | Inr (Some c) \<Rightarrow>
                         (case construct ctor c (params_of section) of
                            Inl e \<Rightarrow> Inl e
                          | Inr h \<Rightarrow> Inr (Some h)))))"

fun resolve_sections ::
  "constructors \<Rightarrow> pyval list \<Rightarrow> Heuristic list \<Rightarrow> string + Heuristic list" where
  "resolve_sections ctor [] hs = Inr hs"
| "resolve_sections ctor (section # rest) hs =
     (case resolve_section ctor section of
        Inl e \<Rightarrow> Inl e
      | Inr None \<Rightarrow> resolve_sections ctor rest hs
      | Inr (Some h) \<Rightarrow> resolve_sections ctor rest (hs @ [h]))"

text \<open>
  What reading the configuration file gives: \<open>Unreadable\<close> when \<open>open\<close> or
  \<open>yaml.safe_load\<close> raised, the parsed document otherwise.
\<close>

datatype config_file = Unreadable | Parsed pyval

definition load_engine_from_config ::
  "constructors \<Rightarrow> config_file \<Rightarrow> string + HeuristicEngine" where
  "load_engine_from_config ctor file =
     (case file of
        Unreadable \<Rightarrow> Inr \<lparr>heuristics = default_heuristics ctor\<rparr>
      | Parsed data \<Rightarrow>
          if \<not> is_truthy data then Inr \<lparr>heuristics = []\<rparr>
          else (case py_get data ''enabled'' (PBool True) of
                  Inl e \<Rightarrow> Inl e
                | Inr en \<Rightarrow>
                    if \<not> is_truthy en then Inr \<lparr>heuristics = []\<rparr>
                    else (case py_get data ''pre_query'' (PList []) of
                            Inl e \<Rightarrow> Inl e
                          | Inr pre \<Rightarrow>
                              (case py_get data ''post_result'' (PList []) of
                                 Inl e \<Rightarrow> Inl e
                               | Inr post \<Rightarrow>
                                   (case sections_of pre post of
                                      Inl e \<Rightarrow> Inl e
                                    | Inr sections \<Rightarrow>
                                        (case resolve_sections ctor sections [] of
                                           Inl e \<Rightarrow> Inl e
                                         | Inr hs \<Rightarrow>
                                             Inr \<lparr>heuristics =
                                                    (if hs = [] then default_heuristics ctor
                                                     else hs)\<rparr>))))))"

text \<open>
  The entries a parsed document lists (the items of \<open>pre_query\<close> and \<open>post_result\<close>), and
  the two reasons for which the loop passes over an entry: it is disabled, or its id is
  not in \<open>ID_TO_CLASS\<close>.
\<close>

definition entries :: "pyval \<Rightarrow> string + pyval list" where
  "entries data =
     (case py_get data ''pre_query'' (PList []) of
        Inl e \<Rightarrow> Inl e
      | Inr pre \<Rightarrow>
          (case py_get data ''post_result'' (PList []) of
             Inl e \<Rightarrow> Inl e
           | Inr post \<Rightarrow> sections_of pre post))"

definition entry_disabled :: "pyval \<Rightarrow> bool" where
  "entry_disabled section =
     (case py_get section ''enabled'' (PBool True) of
        Inl e \<Rightarrow> False
      | Inr en \<Rightarrow> \<not> is_truthy en)"

definition entry_unknown :: "pyval \<Rightarrow> bool" where
  "entry_unknown section =
     (case py_get section ''id'' PNone of
        Inl e \<Rightarrow> False
      | Inr hid \<Rightarrow> class_of_id hid = Inr None)"

text \<open>Unit constructors for the examples: every unit returns an empty result.\<close>

definition class_id :: "heuristic_class \<Rightarrow> string" where
  "class_id c = (case find (\<lambda>(i, c'). c' = c) ID_TO_CLASS of Some (i, c') \<Rightarrow> i | None \<Rightarrow> [])"

definition quiet_unit :: "heuristic_class \<Rightarrow> Heuristic" where
  "quiet_unit c =
     \<lparr>h_id = class_id c, description = [], enabled = True,
      run = (\<lambda>ctx. Inr \<lparr>modified_input = None, notes_txt = None, flags = [],
                           severity = ''none''\<rparr>)\<rparr>"

definition quiet_constructors :: constructors where
  "quiet_constructors =
     \<lparr>new_default = quiet_unit, new_with = (\<lambda>c params. Inr (quiet_unit c))\<rparr>"

text \<open>
  Example documents: one that only says \<open>enabled: true\<close>, and one whose entries are
  all passed over.
\<close>

definition doc_no_entries :: pyval where
  "doc_no_entries = PDict [(PStr ''enabled'', PBool True)]"

definition doc_all_skipped :: pyval where
  "doc_all_skipped =
     PDict [(PStr ''enabled'', PBool True),
            (PStr ''pre_query'',
               PList [PDict [(PStr ''id'', PStr ''no_such_heuristic'')],
                      PDict [(PStr ''id'', PStr ''timeout_manager''),
                             (PStr ''enabled'', PBool False)]])]"

section \<open>history_index/retriever.py\<close>










text \<open>
  What the documentation of \<open>np.argsort\<close> promises for every sorting kind: the result
  lists each position once, and the values taken in that order ascend.  The default kind
  is not promised to keep equal values in their original order.
\<close>

definition argsort_sorts :: "('v :: linorder list \<Rightarrow> nat list) \<Rightarrow> bool" where
  "argsort_sorts f \<longleftrightarrow>
     (\<forall>xs. set (f xs) = {0..<length xs} \<and> distinct (f xs) \<and> sorted (map ((!) xs) (f xs)))"






text \<open>
  A second library, whose sort also meets the promise of \<open>np.argsort\<close> but leaves
  equal values in descending position.
\<close>

definition descending_argsort :: "int list \<Rightarrow> nat list" where
  "descending_argsort xs = sort_key ((!) xs) (rev [0..<length xs])"






section \<open>Verified properties\<close>

subsection \<open>The heuristics pipeline\<close>

lemma run_loop_append:
  "run_loop (xs @ ys) ctx cur acc =
     (case run_loop xs ctx cur acc of (c, rs) \<Rightarrow> run_loop ys ctx c rs)"
  by (induction xs arbitrary: cur acc) (simp_all add: Let_def)

lemma run_loop_take:
  "i \<le> length hs \<Longrightarrow>
   run_loop (take i hs) ctx (working_text hs ctx 0) [] =
     (working_text hs ctx i, map (\<lambda>j. try_run (hs ! j) (seen_by hs ctx j)) [0..<i])"
proof (induction i)
  case 0
  show ?case by simp
next
  case (Suc i)
  then have lt: "i < length hs" and ih: "run_loop (take i hs) ctx (working_text hs ctx 0) [] =
     (working_text hs ctx i, map (\<lambda>j. try_run (hs ! j) (seen_by hs ctx j)) [0..<i])"
    by simp_all
  have "take (Suc i) hs = take i hs @ [hs ! i]"
    using lt by (simp add: take_Suc_conv_app_nth)
  then show ?case
    by (simp add: run_loop_append ih Let_def seen_by_def del: working_text.simps(1))
qed

lemma engine_run_eq:
  "engine_run eng ctx =
     (working_text (enabled_units (heuristics eng)) ctx (length (enabled_units (heuristics eng))),
      map (\<lambda>j. try_run (enabled_units (heuristics eng) ! j)
                 (seen_by (enabled_units (heuristics eng)) ctx j))
          [0..<length (enabled_units (heuristics eng))])"
  using run_loop_take [of "length (enabled_units (heuristics eng))" "enabled_units (heuristics eng)" ctx]
  by (simp add: engine_run_def)

lemma example_enabled:
  "enabled_units (heuristics example_engine) = [shouting_unit, raising_unit, shouting_unit]"
  by (simp add: example_engine_def enabled_units_def shouting_unit_def silent_unit_def
      raising_unit_def)

text \<open>
  C5: a unit whose \<open>run\<close> raises is replaced by the synthetic result
  \<open>{notes: "heuristic_error: <id>: <message>", severity: "warn"}\<close> and the pipeline
  goes on: the result list has exactly one entry per enabled unit, in the configured order,
  and entry \<open>i\<close> is the synthetic result when unit \<open>i\<close> raised and the unit's own
  result otherwise.
\<close>

theorem engine_isolates_failures:
  "length (snd (engine_run eng ctx)) = length (enabled_units (heuristics eng)) \<and>
   (\<forall>i < length (enabled_units (heuristics eng)).
      (\<forall>e. run (enabled_units (heuristics eng) ! i)
                \<lparr>user_input = working_text (enabled_units (heuristics eng)) ctx i,
                 interim_result = interim_result ctx, metadata = metadata ctx\<rparr> = Inl e \<longrightarrow>
           snd (engine_run eng ctx) ! i =
             \<lparr>modified_input = None,
              notes_txt = Some (''heuristic_error: '' @ h_id (enabled_units (heuristics eng) ! i)
                                 @ '': '' @ e),
              flags = [],
              severity = ''warn''\<rparr>) \<and>
      (\<forall>r. run (enabled_units (heuristics eng) ! i)
                \<lparr>user_input = working_text (enabled_units (heuristics eng)) ctx i,
                 interim_result = interim_result ctx, metadata = metadata ctx\<rparr> = Inr r \<longrightarrow>
           snd (engine_run eng ctx) ! i = r))"
  by (simp add: engine_run_eq try_run_def heuristic_error_def seen_by_def)

theorem engine_isolates_failures_witness:
  "length (snd (engine_run example_engine example_ctx)) = 3 \<and>
   snd (engine_run example_engine example_ctx) ! 1 =
     \<lparr>modified_input = None, notes_txt = Some ''heuristic_error: boom: bad'', flags = [],
      severity = ''warn''\<rparr> \<and>
   snd (engine_run example_engine example_ctx) ! 2 =
     \<lparr>modified_input = Some ''hi!!'', notes_txt = None, flags = [], severity = ''info''\<rparr>"
proof -
  let ?us = "[shouting_unit, raising_unit, shouting_unit]"
  note t = engine_isolates_failures [of example_engine example_ctx, unfolded example_enabled]
  have len: "length (snd (engine_run example_engine example_ctx)) = 3"
    using t by simp
  have w1: "working_text ?us example_ctx (Suc 0) = ''hi!''"
    by (simp add: example_ctx_def try_run_def shouting_unit_def)
  have w2: "working_text ?us example_ctx (Suc (Suc 0)) = ''hi!''"
    using w1 by (simp add: try_run_def raising_unit_def heuristic_error_def del: working_text.simps(1))
  have r1: "run raising_unit
              \<lparr>user_input = working_text ?us example_ctx 1,
               interim_result = interim_result example_ctx, metadata = metadata example_ctx\<rparr> =
            Inl ''bad''"
    by (simp add: raising_unit_def)
  have r2: "run shouting_unit
              \<lparr>user_input = working_text ?us example_ctx 2,
               interim_result = interim_result example_ctx, metadata = metadata example_ctx\<rparr> =
      Inr \<lparr>modified_input = Some ''hi!!'', notes_txt = None, flags = [], severity = ''info''\<rparr>"
    using w2 by (simp add: shouting_unit_def numeral_2_eq_2)
  from t have "\<forall>e. run (?us ! 1)
         \<lparr>user_input = working_text ?us example_ctx 1,
          interim_result = interim_result example_ctx, metadata = metadata example_ctx\<rparr> = Inl e \<longrightarrow>
       snd (engine_run example_engine example_ctx) ! 1 =
         \<lparr>modified_input = None,
          notes_txt = Some (''heuristic_error: '' @ h_id (?us ! 1) @ '': '' @ e),
          flags = [], severity = ''warn''\<rparr>"
    by simp
  with r1 have "snd (engine_run example_engine example_ctx) ! 1 =
         \<lparr>modified_input = None,
          notes_txt = Some (''heuristic_error: '' @ h_id raising_unit @ '': '' @ ''bad''),
          flags = [], severity = ''warn''\<rparr>"
    by simp
  then have a: "snd (engine_run example_engine example_ctx) ! 1 =
     \<lparr>modified_input = None, notes_txt = Some ''heuristic_error: boom: bad'', flags = [],
      severity = ''warn''\<rparr>"
    by (simp add: raising_unit_def)
  from t have "\<forall>r. run (?us ! 2)
         \<lparr>user_input = working_text ?us example_ctx 2,
          interim_result = interim_result example_ctx, metadata = metadata example_ctx\<rparr> = Inr r \<longrightarrow>
       snd (engine_run example_engine example_ctx) ! 2 = r"
    by simp
  with r2 have b: "snd (engine_run example_engine example_ctx) ! 2 =
     \<lparr>modified_input = Some ''hi!!'', notes_txt = None, flags = [], severity = ''info''\<rparr>"
    by simp
  from len a b show ?thesis by simp
qed

text \<open>
  C6: the working text starts as \<open>interim_result\<close> when it is present and as
  \<open>user_input\<close> otherwise; every unit is run on the working text left by the units
  before it (as its \<open>user_input\<close>), a result with a non-\<open>None\<close>
  \<open>modified_input\<close> replaces the working text, and the text the engine returns is the
  working text after the last enabled unit.
\<close>

theorem engine_threads_working_text:
  "working_text (enabled_units (heuristics eng)) ctx 0 =
     (case interim_result ctx of Some ir \<Rightarrow> ir | None \<Rightarrow> user_input ctx) \<and>
   (\<forall>i < length (enabled_units (heuristics eng)).
      snd (engine_run eng ctx) ! i =
        try_run (enabled_units (heuristics eng) ! i)
          \<lparr>user_input = working_text (enabled_units (heuristics eng)) ctx i,
           interim_result = interim_result ctx, metadata = metadata ctx\<rparr> \<and>
      working_text (enabled_units (heuristics eng)) ctx (Suc i) =
        (case modified_input (snd (engine_run eng ctx) ! i) of
           Some m \<Rightarrow> m
         | None \<Rightarrow> working_text (enabled_units (heuristics eng)) ctx i)) \<and>
   fst (engine_run eng ctx) =
     working_text (enabled_units (heuristics eng)) ctx (length (enabled_units (heuristics eng)))"
  by (simp add: engine_run_eq seen_by_def)

theorem engine_threads_working_text_witness:
  "fst (engine_run example_engine example_ctx) = ''hi!!'' \<and>
   modified_input (snd (engine_run example_engine example_ctx) ! 0) = Some ''hi!''"
proof -
  note t = engine_threads_working_text [of example_engine example_ctx, unfolded example_enabled]
  have w1: "working_text [shouting_unit, raising_unit, shouting_unit] example_ctx (Suc 0) = ''hi!''"
    by (simp add: example_ctx_def try_run_def shouting_unit_def)
  have w2: "working_text [shouting_unit, raising_unit, shouting_unit] example_ctx (Suc (Suc 0)) = ''hi!''"
    using w1 by (simp add: try_run_def raising_unit_def heuristic_error_def del: working_text.simps(1))
  have w3: "working_text [shouting_unit, raising_unit, shouting_unit] example_ctx (Suc (Suc (Suc 0))) = ''hi!!''"
    using w2 by (simp add: try_run_def shouting_unit_def del: working_text.simps(1))
  have a: "fst (engine_run example_engine example_ctx) = ''hi!!''"
    using t w3 by (simp add: numeral_3_eq_3)
  from t have "snd (engine_run example_engine example_ctx) ! 0 =
        try_run ([shouting_unit, raising_unit, shouting_unit] ! 0)
          \<lparr>user_input = working_text [shouting_unit, raising_unit, shouting_unit] example_ctx 0,
           interim_result = interim_result example_ctx, metadata = metadata example_ctx\<rparr>"
    by simp
  then have b: "modified_input (snd (engine_run example_engine example_ctx) ! 0) = Some ''hi!''"
    by (simp add: try_run_def shouting_unit_def example_ctx_def)
  from a b show ?thesis by simp
qed

subsection \<open>The step and lifeline loop\<close>

lemma startswith_append [simp]: "startswith (p @ t) p"
  by (simp add: startswith_def)

lemma startswithE: "startswith s p \<Longrightarrow> \<exists>t. s = p @ t"
  by (metis append_take_drop_id startswith_def)

lemma strip_chars_keeps_prefix:
  assumes "p \<noteq> []" "\<not> P (hd p)" "\<not> P (last p)"
  shows "\<exists>u. strip_chars P (p @ t) = p @ u"
proof -
  have a: "dropWhile P (p @ t) = p @ t"
    using assms by (cases p) simp_all
  have "\<exists>u. dropWhile P (rev t @ rev p) = u @ rev p"
  proof (cases "\<forall>x \<in> set (rev t). P x")
    case True
    then have "dropWhile P (rev t @ rev p) = dropWhile P (rev p)"
      by (simp add: dropWhile_append)
    also have "\<dots> = rev p"
      using assms by (cases "rev p") (simp_all add: last_rev [symmetric] hd_rev)
    finally show ?thesis by simp
  next
    case False
    then have "dropWhile P (rev t @ rev p) = dropWhile P (rev t) @ rev p"
      by (auto simp add: dropWhile_append)
    then show ?thesis by blast
  qed
  then obtain u where "dropWhile P (rev t @ rev p) = u @ rev p" ..
  then have "strip_chars P (p @ t) = p @ rev u"
    by (simp add: strip_chars_def a)
  then show ?thesis by blast
qed

lemma strip_forward_marker:
  assumes "startswith raw ''FURTHER_PROCESSING_REQUIRED:''"
  shows "\<exists>t. strip raw = ''FURTHER_PROCESSING_REQUIRED:'' @ t"
proof -
  from assms obtain t where "raw = ''FURTHER_PROCESSING_REQUIRED:'' @ t"
    using startswithE by blast
  moreover have "\<exists>u. strip_chars isspace (''FURTHER_PROCESSING_REQUIRED:'' @ t) = ''FURTHER_PROCESSING_REQUIRED:'' @ u"
    by (rule strip_chars_keeps_prefix) (simp_all add: isspace_def)
  ultimately show ?thesis by (simp add: strip_def)
qed

lemma split_acc_nonempty: "split_acc sep acc s \<noteq> []"
  by (induction sep acc s rule: split_acc.induct) auto

lemma split_forward_marker:
  "\<exists>piece rest. split (''FURTHER_PROCESSING_REQUIRED:'' @ t) ''FURTHER_PROCESSING_REQUIRED:'' = [] # piece # rest"
proof -
  have "split (''FURTHER_PROCESSING_REQUIRED:'' @ t) ''FURTHER_PROCESSING_REQUIRED:''
        = [] # split_acc ''FURTHER_PROCESSING_REQUIRED:'' [] t"
    by (simp add: split_def startswith_def)
  moreover obtain piece rest where "split_acc ''FURTHER_PROCESSING_REQUIRED:'' [] t = piece # rest"
    using split_acc_nonempty by (cases "split_acc ''FURTHER_PROCESSING_REQUIRED:'' [] t") auto
  ultimately show ?thesis by simp
qed

lemma forward_not_final:
  "\<not> startswith (''FURTHER_PROCESSING_REQUIRED:'' @ t) ''FINAL_ANSWER:''"
  by (simp add: startswith_def)

lemma execute_forward:
  assumes sb: "run_python_sandbox env n plan = SStr raw"
    and fpr: "startswith raw ''FURTHER_PROCESSING_REQUIRED:''"
  shows "execute env eng cfg step n plan st =
     (Break,
      (add_events [LogSubtask ''solve_sandbox'' ''pending'', Sandbox plan] st)
        \<lparr>user_input_override :=
           Some (forward_override eng cfg step
                   (strip (split (strip raw) ''FURTHER_PROCESSING_REQUIRED:'' ! 1)))\<rparr>)"
proof -
  from fpr obtain t where t: "strip raw = ''FURTHER_PROCESSING_REQUIRED:'' @ t"
    using strip_forward_marker by blast
  obtain piece rest where sp:
    "split (strip raw) ''FURTHER_PROCESSING_REQUIRED:'' = [] # piece # rest"
    using split_forward_marker [of t] t by auto
  have nf: "\<not> startswith (strip raw) ''FINAL_ANSWER:''"
    unfolding t by (rule forward_not_final)
  have f: "startswith (strip raw) ''FURTHER_PROCESSING_REQUIRED:''"
    unfolding t by (rule startswith_append)
  show ?thesis
    by (simp only: execute_def Let_def sb sandbox_value.case nf f if_True if_False sp list.case
        nth_Cons_Suc nth_Cons_0 One_nat_def)
qed





lemma plain_pre: "run_pre_query plain_engine t md = (t @ ''!'', [\<lparr>modified_input = Some (t @ ''!''),
     notes_txt = None, flags = [], severity = ''info''\<rparr>])"
  by (simp add: run_pre_query_def engine_run_def plain_engine_def enabled_units_def
      shouting_unit_def try_run_def Let_def)

lemma plain_post: "run_post_result plain_engine u t md = (t @ ''!'', [\<lparr>modified_input = Some (t @ ''!''),
     notes_txt = None, flags = [], severity = ''info''\<rparr>])"
  by (simp add: run_post_result_def engine_run_def plain_engine_def enabled_units_def
      shouting_unit_def try_run_def Let_def)

lemma solve_plan_example: "is_solve_plan ''def solve():''"
  by (simp add: is_solve_plan_def re_search_multiline_def solve_pattern_def Opt_def Plus_def
      isspace_def)

lemma generate_plan_example: "generate_plan (Inr ''def solve():'') = ''def solve():''"
proof -
  have "strip ''def solve():'' = ''def solve():''"
    by (simp add: strip_def strip_chars_def isspace_def)
  moreover have "unfence ''def solve():'' = ''def solve():''"
    by (simp add: unfence_def startswith_def)
  ultimately show ?thesis
    by (simp add: generate_plan_def solve_plan_example)
qed

lemma forwarding_plan:
  "plan_text forwarding_run eng cfg step st = ''def solve():''"
  by (simp add: plan_text_def forwarding_run_def generate_plan_example)

lemma forwarding_tools:
  "selected_tools forwarding_run eng cfg step st = [''search'']"
  by (simp add: selected_tools_def forwarding_run_def)

lemma payload_example:
  "strip (split (strip ''FURTHER_PROCESSING_REQUIRED: 7'') ''FURTHER_PROCESSING_REQUIRED:'' ! 1) = ''7''"
proof -
  have "strip ''FURTHER_PROCESSING_REQUIRED: 7'' = ''FURTHER_PROCESSING_REQUIRED: 7''"
    by (simp add: strip_def strip_chars_def isspace_def)
  moreover have "split ''FURTHER_PROCESSING_REQUIRED: 7'' ''FURTHER_PROCESSING_REQUIRED:'' = [[], '' 7'']"
    by (simp add: split_def startswith_def)
  moreover have "strip '' 7'' = ''7''"
    by (simp add: strip_def strip_chars_def isspace_def)
  ultimately show ?thesis by simp
qed





lemma unknown_not_solve: "\<not> is_solve_plan ''FINAL_ANSWER: [unknown]''"
  by (simp add: is_solve_plan_def re_search_multiline_def solve_pattern_def Opt_def Plus_def
      isspace_def)

lemma attempt_invalid_plan:
  assumes "selected_tools env eng cfg step st \<noteq> []"
    and "\<not> is_solve_plan (plan_text env eng cfg step st)"
  shows "attempt env eng cfg step st =
     (Continue,
      st\<lparr>attempts := attempts st + 1,
         events := events st @ [Perception (current_input eng cfg step st),
                                Planning (request env eng cfg step st)],
         lifelines_left := lifelines_left st - 1\<rparr>)"
  using assms by (simp add: attempt_def Let_def add_events_def)

lemma attempt_no_tools:
  assumes "selected_tools env eng cfg step st = []"
  shows "attempt env eng cfg step st =
     (Break, st\<lparr>attempts := attempts st + 1,
                events := events st @ [Perception (current_input eng cfg step st)]\<rparr>)"
  using assms by (simp add: attempt_def Let_def add_events_def)

lemma lifeline_loop_never_executes:
  "(\<And>s. selected_tools env eng cfg step s = [] \<or> \<not> is_solve_plan (plan_text env eng cfg step s))
   \<Longrightarrow> fst (lifeline_loop env eng cfg step st) = NextStep"
proof (induction env eng cfg step st rule: lifeline_loop.induct)
  case (1 env eng cfg step st)
  show ?case
  proof (cases "0 \<le> lifelines_left st")
    case False
    then show ?thesis by simp
  next
    case alive: True
    show ?thesis
    proof (cases "selected_tools env eng cfg step st = []")
      case True
      then show ?thesis using alive by (simp add: attempt_no_tools)
    next
      case False
      with "1.prems" [of st] have np: "\<not> is_solve_plan (plan_text env eng cfg step st)" by simp
      note a = attempt_invalid_plan [OF False np]
      have "fst (lifeline_loop env eng cfg step
                   (st\<lparr>attempts := attempts st + 1,
                      events := events st @ [Perception (current_input eng cfg step st),
                                             Planning (request env eng cfg step st)],
                      lifelines_left := lifelines_left st - 1\<rparr>)) = NextStep"
        by (rule "1.IH" [OF alive a [symmetric] refl]) (rule "1.prems")
      then show ?thesis using alive a by simp
    qed
  qed
qed

lemma step_loop_never_executes:
  assumes "\<And>step s. selected_tools env eng cfg step s = [] \<or> \<not> is_solve_plan (plan_text env eng cfg step s)"
  shows "fst (step_loop env eng cfg steps st) = Returned ''done'' ''FINAL_ANSWER: [Max steps reached]'' \<and>
         final_answer (snd (step_loop env eng cfg steps st)) = Some ''FINAL_ANSWER: [Max steps reached]''"
proof (induction steps arbitrary: st)
  case Nil
  show ?case by simp
next
  case (Cons step steps)
  have "fst (lifeline_loop env eng cfg step (step_start cfg step st)) = NextStep"
    by (rule lifeline_loop_never_executes) (rule assms)
  then obtain st' where "lifeline_loop env eng cfg step (step_start cfg step st) = (NextStep, st')"
    by (metis prod.collapse)
  then show ?case using Cons.IH [of st'] by simp
qed

text \<open>
  C9, as amended: \<open>generate_plan\<close> returns the literal \<open>FINAL_ANSWER: [unknown]\<close>
  when the model call raises, but the loop does not end with it.  In a pass whose model
  call raises (whatever the other calls of the run do), the plan is that literal, which
  has no solve function: when tools were selected the pass calls no sandbox, spends one
  lifeline, and the lifeline loop of the same step goes on from there.  A run in which
  every model call raises ends with \<open>FINAL_ANSWER: [Max steps reached]\<close>.
\<close>

theorem planner_failure_is_retried:
  "generate_plan (Inl e) = ''FINAL_ANSWER: [unknown]'' \<and>
   (generate_text env (attempts st) (request env eng cfg step st) = Inl e \<longrightarrow>
      plan_text env eng cfg step st = ''FINAL_ANSWER: [unknown]'' \<and>
      (selected_tools env eng cfg step st \<noteq> [] \<longrightarrow>
         attempt env eng cfg step st =
           (Continue,
            st\<lparr>attempts := attempts st + 1,
               events := events st @ [Perception (current_input eng cfg step st),
                                      Planning (request env eng cfg step st)],
               lifelines_left := lifelines_left st - 1\<rparr>) \<and>
         (0 \<le> lifelines_left st \<longrightarrow>
            lifeline_loop env eng cfg step st =
              lifeline_loop env eng cfg step
                (st\<lparr>attempts := attempts st + 1,
                   events := events st @ [Perception (current_input eng cfg step st),
                                          Planning (request env eng cfg step st)],
                   lifelines_left := lifelines_left st - 1\<rparr>)))) \<and>
   ((\<forall>n req. \<exists>e'. generate_text env n req = Inl e') \<longrightarrow>
      fst (run_from env eng cfg st) = Returned ''done'' ''FINAL_ANSWER: [Max steps reached]'' \<and>
      final_answer (snd (run_from env eng cfg st)) = Some ''FINAL_ANSWER: [Max steps reached]'')"
proof (intro conjI impI)
  show g: "generate_plan (Inl e) = ''FINAL_ANSWER: [unknown]''"
    by (simp add: generate_plan_def)
  {
    assume raised: "generate_text env (attempts st) (request env eng cfg step st) = Inl e"
    then show p: "plan_text env eng cfg step st = ''FINAL_ANSWER: [unknown]''"
      by (simp add: plan_text_def generate_plan_def)
    assume tools: "selected_tools env eng cfg step st \<noteq> []"
    from p have np: "\<not> is_solve_plan (plan_text env eng cfg step st)"
      by (simp add: unknown_not_solve)
    show a: "attempt env eng cfg step st =
           (Continue,
            st\<lparr>attempts := attempts st + 1,
               events := events st @ [Perception (current_input eng cfg step st),
                                      Planning (request env eng cfg step st)],
               lifelines_left := lifelines_left st - 1\<rparr>)"
      by (rule attempt_invalid_plan [OF tools np])
    assume alive: "0 \<le> lifelines_left st"
    show "lifeline_loop env eng cfg step st =
              lifeline_loop env eng cfg step
                (st\<lparr>attempts := attempts st + 1,
                   events := events st @ [Perception (current_input eng cfg step st),
                                          Planning (request env eng cfg step st)],
                   lifelines_left := lifelines_left st - 1\<rparr>)"
      using alive a by (subst lifeline_loop.simps) simp
  }
  {
    assume always: "\<forall>n req. \<exists>e'. generate_text env n req = Inl e'"
    have np: "\<not> is_solve_plan (plan_text env eng cfg step s)" for step s
    proof -
      from always obtain e' where "generate_text env (attempts s) (request env eng cfg step s) = Inl e'"
        by blast
      then show ?thesis by (simp add: plan_text_def generate_plan_def unknown_not_solve)
    qed
    have r: "fst (run_from env eng cfg st) = Returned ''done'' ''FINAL_ANSWER: [Max steps reached]'' \<and>
         final_answer (snd (run_from env eng cfg st)) = Some ''FINAL_ANSWER: [Max steps reached]''"
      unfolding run_from_def by (rule step_loop_never_executes) (simp add: np)
    from r show "fst (run_from env eng cfg st) = Returned ''done'' ''FINAL_ANSWER: [Max steps reached]''"
      by blast
    from r show "final_answer (snd (run_from env eng cfg st)) = Some ''FINAL_ANSWER: [Max steps reached]''"
      by blast
  }
qed

theorem planner_failure_is_retried_witness:
  "generate_text flaky_planner 0
      (request flaky_planner plain_engine example_profile 0
         (step_start example_profile 0 initial_state)) = Inl ''model unavailable'' \<and>
   generate_text flaky_planner 1
      (request flaky_planner plain_engine example_profile 0
         (step_start example_profile 0 initial_state)) = Inr ''def solve():'' \<and>
   plan_text flaky_planner plain_engine example_profile 0
      (step_start example_profile 0 initial_state) = ''FINAL_ANSWER: [unknown]'' \<and>
   fst (attempt flaky_planner plain_engine example_profile 0
          (step_start example_profile 0 initial_state)) = Continue \<and>
   lifelines_left (step_start example_profile 0 initial_state) = 1 \<and>
   lifelines_left (snd (attempt flaky_planner plain_engine example_profile 0
          (step_start example_profile 0 initial_state))) = 0 \<and>
   events (snd (attempt flaky_planner plain_engine example_profile 0
          (step_start example_profile 0 initial_state))) =
     [Perception ''task!'',
      Planning (request flaky_planner plain_engine example_profile 0
                  (step_start example_profile 0 initial_state))] \<and>
   fst (run_agent failing_planner plain_engine example_profile) =
     Returned ''done'' ''FINAL_ANSWER: [Max steps reached]''"
proof -
  let ?st = "step_start example_profile 0 initial_state"
  have st: "attempts ?st = 0" "lifelines_left ?st = 1" "events ?st = []"
    by (simp_all add: step_start_def initial_state_def example_profile_def)
  have raised: "generate_text flaky_planner (attempts ?st)
      (request flaky_planner plain_engine example_profile 0 ?st) = Inl ''model unavailable''"
    by (simp add: flaky_planner_def st)
  have later: "generate_text flaky_planner 1
      (request flaky_planner plain_engine example_profile 0 ?st) = Inr ''def solve():''"
    by (simp add: flaky_planner_def)
  have tools: "selected_tools flaky_planner plain_engine example_profile 0 ?st \<noteq> []"
    by (simp add: selected_tools_def flaky_planner_def)
  have ci: "current_input plain_engine example_profile 0 ?st = ''task!''"
    by (simp add: current_input_def plain_pre select_input_def step_start_def initial_state_def
        example_profile_def)
  have always: "\<forall>n req. \<exists>e'. generate_text failing_planner n req = Inl e'"
    by (simp add: failing_planner_def)
  from planner_failure_is_retried [of "''model unavailable''" flaky_planner ?st plain_engine
      example_profile 0] raised tools
  have p: "plan_text flaky_planner plain_engine example_profile 0 ?st = ''FINAL_ANSWER: [unknown]''"
    and a: "attempt flaky_planner plain_engine example_profile 0 ?st =
           (Continue,
            ?st\<lparr>attempts := attempts ?st + 1,
               events := events ?st @ [Perception (current_input plain_engine example_profile 0 ?st),
                                      Planning (request flaky_planner plain_engine example_profile 0 ?st)],
               lifelines_left := lifelines_left ?st - 1\<rparr>)"
    by blast+
  from planner_failure_is_retried [of "''model unavailable''" failing_planner initial_state
      plain_engine example_profile 0] always
  have r: "fst (run_agent failing_planner plain_engine example_profile) =
     Returned ''done'' ''FINAL_ANSWER: [Max steps reached]''"
    unfolding run_agent_def by blast
  from raised [unfolded st] later p r show ?thesis
    by (simp add: a st ci)
qed

text \<open>
  The claim as first stated fails: with a planner that always raises, the run ends with the
  max-steps literal, not with \<open>FINAL_ANSWER: [unknown]\<close>.
\<close>

theorem planner_failure_counterexample:
  "generate_text failing_planner 0
      (request failing_planner plain_engine example_profile 0 initial_state) = Inl ''model unavailable'' \<and>
   fst (run_agent failing_planner plain_engine example_profile) =
     Returned ''done'' ''FINAL_ANSWER: [Max steps reached]'' \<and>
   final_answer (snd (run_agent failing_planner plain_engine example_profile)) \<noteq>
     Some ''FINAL_ANSWER: [unknown]''"
proof -
  have np: "selected_tools failing_planner plain_engine example_profile step s = [] \<or>
            \<not> is_solve_plan (plan_text failing_planner plain_engine example_profile step s)" for step s
    by (simp add: plan_text_def failing_planner_def generate_plan_def unknown_not_solve)
  have "fst (run_agent failing_planner plain_engine example_profile) =
          Returned ''done'' ''FINAL_ANSWER: [Max steps reached]'' \<and>
        final_answer (snd (run_agent failing_planner plain_engine example_profile)) =
          Some ''FINAL_ANSWER: [Max steps reached]''"
    unfolding run_agent_def run_from_def by (rule step_loop_never_executes) (rule np)
  then show ?thesis
    by (simp add: failing_planner_def)
qed

lemma attempt_executes:
  assumes "selected_tools env eng cfg step st \<noteq> []"
    and "is_solve_plan (plan_text env eng cfg step st)"
  shows "attempt env eng cfg step st =
     execute env eng cfg step (attempts st) (plan_text env eng cfg step st)
       (st\<lparr>attempts := attempts st + 1,
          events := events st @ [Perception (current_input eng cfg step st),
                                 Planning (request env eng cfg step st)]\<rparr>)"
  using assms by (simp add: attempt_def Let_def add_events_def)

lemma startswith_contains: "startswith s p \<Longrightarrow> contains s p"
  by (cases s) (simp_all add: startswith_def)

text \<open>
  C4, as amended: the prefixes are tested on the result with its surrounding whitespace
  stripped.  When the stripped result starts with none of \<open>FINAL_ANSWER:\<close>,
  \<open>FURTHER_PROCESSING_REQUIRED:\<close> and \<open>[sandbox error:\<close>, the loop records
  \<open>FINAL_ANSWER: \<close> followed by the stripped result and marks the subtask a success;
  it returns status \<open>done\<close> at once, with no lifeline spent, when the result does not
  contain \<open>FURTHER_PROCESSING_REQUIRED:\<close> anywhere, and spends a lifeline and goes round
  again when it does.
\<close>

theorem plain_result_is_final:
  assumes tools: "selected_tools env eng cfg step st \<noteq> []"
    and plan: "is_solve_plan (plan_text env eng cfg step st)"
    and sb: "run_python_sandbox env (attempts st) (plan_text env eng cfg step st) = SStr raw"
    and nfa: "\<not> startswith (strip raw) ''FINAL_ANSWER:''"
    and nfp: "\<not> startswith (strip raw) ''FURTHER_PROCESSING_REQUIRED:''"
    and nse: "\<not> startswith (strip raw) ''[sandbox error:''"
    and alive: "0 \<le> lifelines_left st"
  shows "\<exists>st'.
      final_answer st' = Some (''FINAL_ANSWER: '' @ strip raw) \<and>
      events st' = events st @
        [Perception (current_input eng cfg step st),
         Planning (request env eng cfg step st),
         LogSubtask ''solve_sandbox'' ''pending'',
         Sandbox (plan_text env eng cfg step st),
         UpdateSubtaskStatus ''solve_sandbox'' ''success'',
         AddToolOutput (plan_text env eng cfg step st) (SStr (strip raw)) True] \<and>
      (if contains (strip raw) ''FURTHER_PROCESSING_REQUIRED:''
       then attempt env eng cfg step st = (Continue, st') \<and>
            lifelines_left st' = lifelines_left st - 1
       else attempt env eng cfg step st =
              (Return ''done'' (''FINAL_ANSWER: '' @ strip raw), st') \<and>
            lifeline_loop env eng cfg step st =
              (Returned ''done'' (''FINAL_ANSWER: '' @ strip raw), st') \<and>
            lifelines_left st' = lifelines_left st)"
proof (cases "contains (strip raw) ''FURTHER_PROCESSING_REQUIRED:''")
  case True
  then show ?thesis
    using attempt_executes [OF tools plan] sb nfa nfp nse
    by (simp add: execute_def finish_execution_def add_events_def Let_def)
next
  case False
  then have a: "attempt env eng cfg step st =
     (Return ''done'' (''FINAL_ANSWER: '' @ strip raw),
      st\<lparr>attempts := attempts st + 1,
         events := events st @
           [Perception (current_input eng cfg step st),
            Planning (request env eng cfg step st),
            LogSubtask ''solve_sandbox'' ''pending'',
            Sandbox (plan_text env eng cfg step st),
            UpdateSubtaskStatus ''solve_sandbox'' ''success'',
            AddToolOutput (plan_text env eng cfg step st) (SStr (strip raw)) True],
         final_answer := Some (''FINAL_ANSWER: '' @ strip raw)\<rparr>)"
    using attempt_executes [OF tools plan] sb nfa nfp nse
    by (simp add: execute_def finish_execution_def add_events_def Let_def)
  show ?thesis
    using False alive by (simp add: a)
qed

lemma example_plan:
  "generate_text env = (\<lambda>n req. Inr ''def solve():'') \<Longrightarrow>
   plan_text env eng cfg step st = ''def solve():''"
  by (simp add: plan_text_def generate_plan_example)

lemma contains_infix: "contains (a @ p @ b) p"
proof (induction a)
  case Nil
  show ?case by (simp add: startswith_contains)
next
  case (Cons c a)
  then show ?case by simp
qed

lemma example_start:
  "lifelines_left (step_start example_profile 0 initial_state) = 1"
  "attempts (step_start example_profile 0 initial_state) = 0"
  "events (step_start example_profile 0 initial_state) = []"
  "user_input_override (step_start example_profile 0 initial_state) = None"
  by (simp_all add: step_start_def example_profile_def initial_state_def)

theorem plain_result_is_final_witness:
  "\<exists>st'. attempt answering_run plain_engine example_profile 0
            (step_start example_profile 0 initial_state) =
           (Return ''done'' ''FINAL_ANSWER: 42'', st') \<and>
         lifeline_loop answering_run plain_engine example_profile 0
            (step_start example_profile 0 initial_state) =
           (Returned ''done'' ''FINAL_ANSWER: 42'', st') \<and>
         final_answer st' = Some ''FINAL_ANSWER: 42'' \<and>
         lifelines_left st' = 1"
proof -
  let ?st = "step_start example_profile 0 initial_state"
  have p: "plan_text answering_run plain_engine example_profile 0 ?st = ''def solve():''"
    by (rule example_plan) (simp add: answering_run_def)
  have s: "strip '' 42 '' = ''42''"
    by (simp add: strip_def strip_chars_def isspace_def)
  have tools: "selected_tools answering_run plain_engine example_profile 0 ?st \<noteq> []"
    by (simp add: selected_tools_def answering_run_def)
  have plan: "is_solve_plan (plan_text answering_run plain_engine example_profile 0 ?st)"
    by (simp add: p solve_plan_example)
  have sb: "run_python_sandbox answering_run (attempts ?st)
              (plan_text answering_run plain_engine example_profile 0 ?st) = SStr '' 42 ''"
    by (simp add: answering_run_def)
  have nfa: "\<not> startswith (strip '' 42 '') ''FINAL_ANSWER:''"
    by (simp add: s startswith_def)
  have nfp: "\<not> startswith (strip '' 42 '') ''FURTHER_PROCESSING_REQUIRED:''"
    by (simp add: s startswith_def)
  have nse: "\<not> startswith (strip '' 42 '') ''[sandbox error:''"
    by (simp add: s startswith_def)
  have alive: "0 \<le> lifelines_left ?st"
    by (simp add: example_start)
  have nc: "\<not> contains (strip '' 42 '') ''FURTHER_PROCESSING_REQUIRED:''"
    by (simp add: s startswith_def)
  from plain_result_is_final [OF tools plan sb nfa nfp nse alive]
  show ?thesis
    using nc by (auto simp: s example_start)
qed

text \<open>
  The claim as first stated fails on a plain result that mentions the forwarding marker:
  it starts with none of the three prefixes, yet the pass ends with \<open>Continue\<close> and one
  lifeline less.
\<close>

theorem plain_result_counterexample:
  "run_python_sandbox mentioning_run 0 ''def solve():'' =
     SStr ''see FURTHER_PROCESSING_REQUIRED: later'' \<and>
   \<not> startswith ''see FURTHER_PROCESSING_REQUIRED: later'' ''FINAL_ANSWER:'' \<and>
   \<not> startswith ''see FURTHER_PROCESSING_REQUIRED: later'' ''FURTHER_PROCESSING_REQUIRED:'' \<and>
   \<not> startswith ''see FURTHER_PROCESSING_REQUIRED: later'' ''[sandbox error:'' \<and>
   lifelines_left (step_start example_profile 0 initial_state) = 1 \<and>
   fst (attempt mentioning_run plain_engine example_profile 0
          (step_start example_profile 0 initial_state)) = Continue \<and>
   lifelines_left (snd (attempt mentioning_run plain_engine example_profile 0
          (step_start example_profile 0 initial_state))) = 0"
proof -
  let ?st = "step_start example_profile 0 initial_state"
  let ?raw = "''see FURTHER_PROCESSING_REQUIRED: later''"
  have p: "plan_text mentioning_run plain_engine example_profile 0 ?st = ''def solve():''"
    by (rule example_plan) (simp add: mentioning_run_def)
  have s: "strip ?raw = ?raw"
    by (simp add: strip_def strip_chars_def isspace_def)
  have tools: "selected_tools mentioning_run plain_engine example_profile 0 ?st \<noteq> []"
    by (simp add: selected_tools_def mentioning_run_def)
  have plan: "is_solve_plan (plan_text mentioning_run plain_engine example_profile 0 ?st)"
    by (simp add: p solve_plan_example)
  have sb: "run_python_sandbox mentioning_run 0 ''def solve():'' = SStr ?raw"
    by (simp add: mentioning_run_def)
  have n: "\<not> startswith ?raw ''FINAL_ANSWER:''"
     "\<not> startswith ?raw ''FURTHER_PROCESSING_REQUIRED:''"
     "\<not> startswith ?raw ''[sandbox error:''"
    by (simp_all add: startswith_def)
  have c: "contains ?raw ''FURTHER_PROCESSING_REQUIRED:''"
  proof -
    have "?raw = ''see '' @ ''FURTHER_PROCESSING_REQUIRED:'' @ '' later''" by simp
    then show ?thesis by (simp only: contains_infix)
  qed
  have a: "attempt mentioning_run plain_engine example_profile 0 ?st =
     execute mentioning_run plain_engine example_profile 0 0 ''def solve():''
       (?st\<lparr>attempts := attempts ?st + 1,
          events := events ?st @ [Perception (current_input plain_engine example_profile 0 ?st),
                                 Planning (request mentioning_run plain_engine example_profile 0 ?st)]\<rparr>)"
    using attempt_executes [OF tools plan] by (simp add: p example_start)
  have "fst (attempt mentioning_run plain_engine example_profile 0 ?st) = Continue \<and>
        lifelines_left (snd (attempt mentioning_run plain_engine example_profile 0 ?st)) = 0"
    unfolding a
    by (simp add: execute_def sb s n c finish_execution_def add_events_def Let_def example_start
        del: contains.simps)
  with sb n show ?thesis by (simp add: example_start)
qed

lemma execute_events_prefix:
  "\<exists>es. events (snd (execute env eng cfg step n plan st)) =
         events st @ [LogSubtask ''solve_sandbox'' ''pending'', Sandbox plan] @ es"
  by (auto simp: execute_def finish_execution_def add_events_def Let_def
           split: sandbox_value.splits list.splits)

text \<open>
  C3, as amended: the test is the pattern as written, which distinguishes capitals from
  small letters.  When tools were selected, a plan that passes the test is executed (the
  sandbox is called with it); a plan that does not is not executed: the pass only adds the
  perception and planning events, takes one lifeline, and the lifeline loop of the same
  step goes on from there.
\<close>

theorem solve_signature_gate:
  assumes tools: "selected_tools env eng cfg step st \<noteq> []"
  shows "(is_solve_plan (plan_text env eng cfg step st) \<longrightarrow>
            attempt env eng cfg step st =
              execute env eng cfg step (attempts st) (plan_text env eng cfg step st)
                (st\<lparr>attempts := attempts st + 1,
                   events := events st @ [Perception (current_input eng cfg step st),
                                          Planning (request env eng cfg step st)]\<rparr>) \<and>
            Sandbox (plan_text env eng cfg step st)
              \<in> set (events (snd (attempt env eng cfg step st)))) \<and>
         (\<not> is_solve_plan (plan_text env eng cfg step st) \<longrightarrow>
            attempt env eng cfg step st =
              (Continue,
               st\<lparr>attempts := attempts st + 1,
                  events := events st @ [Perception (current_input eng cfg step st),
                                         Planning (request env eng cfg step st)],
                  lifelines_left := lifelines_left st - 1\<rparr>) \<and>
            (0 \<le> lifelines_left st \<longrightarrow>
               lifeline_loop env eng cfg step st =
                 lifeline_loop env eng cfg step
                   (st\<lparr>attempts := attempts st + 1,
                      events := events st @ [Perception (current_input eng cfg step st),
                                             Planning (request env eng cfg step st)],
                      lifelines_left := lifelines_left st - 1\<rparr>)))"
proof (cases "is_solve_plan (plan_text env eng cfg step st)")
  case True
  note a = attempt_executes [OF tools True]
  obtain es where "events (snd (attempt env eng cfg step st)) =
      events (st\<lparr>attempts := attempts st + 1,
                   events := events st @ [Perception (current_input eng cfg step st),
                                          Planning (request env eng cfg step st)]\<rparr>) @
      [LogSubtask ''solve_sandbox'' ''pending'', Sandbox (plan_text env eng cfg step st)] @ es"
    unfolding a using execute_events_prefix by blast
  then have "Sandbox (plan_text env eng cfg step st) \<in> set (events (snd (attempt env eng cfg step st)))"
    by simp
  with True a show ?thesis by simp
next
  case False
  note a = attempt_invalid_plan [OF tools False]
  have "0 \<le> lifelines_left st \<longrightarrow>
               lifeline_loop env eng cfg step st =
                 lifeline_loop env eng cfg step
                   (st\<lparr>attempts := attempts st + 1,
                      events := events st @ [Perception (current_input eng cfg step st),
                                             Planning (request env eng cfg step st)],
                      lifelines_left := lifelines_left st - 1\<rparr>)"
    using a by (subst lifeline_loop.simps) simp
  with False a show ?thesis by simp
qed

lemma capitals_not_solve: "\<not> is_solve_plan ''DEF SOLVE():''"
  by (simp add: is_solve_plan_def re_search_multiline_def solve_pattern_def Opt_def Plus_def
      isspace_def)

lemma could_not_generate_not_solve:
  "\<not> is_solve_plan ''FINAL_ANSWER: [Could not generate valid solve()]''"
  by (simp add: is_solve_plan_def re_search_multiline_def solve_pattern_def Opt_def Plus_def
      isspace_def)

lemma capitals_plan:
  "plan_text capitals_planner eng cfg step st =
     ''FINAL_ANSWER: [Could not generate valid solve()]''"
proof -
  have "strip ''DEF SOLVE():'' = ''DEF SOLVE():''"
    by (simp add: strip_def strip_chars_def isspace_def)
  moreover have "unfence ''DEF SOLVE():'' = ''DEF SOLVE():''"
    by (simp add: unfence_def startswith_def)
  ultimately show ?thesis
    by (simp add: plan_text_def capitals_planner_def generate_plan_def capitals_not_solve)
qed

theorem solve_signature_gate_witness:
  "fst (attempt capitals_planner plain_engine example_profile 0
          (step_start example_profile 0 initial_state)) = Continue \<and>
   lifelines_left (snd (attempt capitals_planner plain_engine example_profile 0
          (step_start example_profile 0 initial_state))) = 0 \<and>
   events (snd (attempt capitals_planner plain_engine example_profile 0
          (step_start example_profile 0 initial_state))) =
     [Perception ''task!'',
      Planning (request capitals_planner plain_engine example_profile 0
                  (step_start example_profile 0 initial_state))] \<and>
   Sandbox ''def solve():'' \<in> set (events (snd (attempt answering_run plain_engine example_profile 0
          (step_start example_profile 0 initial_state))))"
proof -
  let ?st = "step_start example_profile 0 initial_state"
  have t1: "selected_tools capitals_planner plain_engine example_profile 0 ?st \<noteq> []"
    by (simp add: selected_tools_def capitals_planner_def)
  have n1: "\<not> is_solve_plan (plan_text capitals_planner plain_engine example_profile 0 ?st)"
    by (simp add: capitals_plan could_not_generate_not_solve)
  have t2: "selected_tools answering_run plain_engine example_profile 0 ?st \<noteq> []"
    by (simp add: selected_tools_def answering_run_def)
  have p2: "plan_text answering_run plain_engine example_profile 0 ?st = ''def solve():''"
    by (rule example_plan) (simp add: answering_run_def)
  have ci: "current_input plain_engine example_profile 0 ?st = ''task!''"
    by (simp add: current_input_def plain_pre select_input_def step_start_def initial_state_def
        example_profile_def)
  from solve_signature_gate [OF t1] n1
  have a: "attempt capitals_planner plain_engine example_profile 0 ?st =
              (Continue,
               ?st\<lparr>attempts := attempts ?st + 1,
                  events := events ?st @ [Perception (current_input plain_engine example_profile 0 ?st),
                                         Planning (request capitals_planner plain_engine example_profile 0 ?st)],
                  lifelines_left := lifelines_left ?st - 1\<rparr>)"
    by blast
  have pl: "is_solve_plan (plan_text answering_run plain_engine example_profile 0 ?st)"
    by (simp add: p2 solve_plan_example)
  from solve_signature_gate [OF t2] pl
  have "Sandbox (plan_text answering_run plain_engine example_profile 0 ?st)
          \<in> set (events (snd (attempt answering_run plain_engine example_profile 0 ?st)))"
    by blast
  then have b: "Sandbox ''def solve():''
          \<in> set (events (snd (attempt answering_run plain_engine example_profile 0 ?st)))"
    by (simp only: p2)
  from a b show ?thesis
    by (simp add: ci example_start)
qed

text \<open>
  The claim as first stated fails: \<open>DEF SOLVE():\<close> matches the pattern when case is
  ignored, but neither \<open>generate_plan\<close> nor the loop accept it.
\<close>

theorem solve_signature_counterexample:
  "matches_solve_ignorecase ''DEF SOLVE():'' \<and>
   \<not> is_solve_plan ''DEF SOLVE():'' \<and>
   generate_plan (Inr ''DEF SOLVE():'') = ''FINAL_ANSWER: [Could not generate valid solve()]'' \<and>
   fst (attempt capitals_planner plain_engine example_profile 0
          (step_start example_profile 0 initial_state)) = Continue"
proof -
  let ?st = "step_start example_profile 0 initial_state"
  have m: "matches_solve_ignorecase ''DEF SOLVE():''"
    by (simp add: matches_solve_ignorecase_def re_search_multiline_def
        solve_pattern_ignorecase_def Opt_def Plus_def isspace_def lower_char_def)
  have g: "generate_plan (Inr ''DEF SOLVE():'') = ''FINAL_ANSWER: [Could not generate valid solve()]''"
    using capitals_plan [of plain_engine example_profile 0 ?st]
    by (simp add: plan_text_def capitals_planner_def)
  have t1: "selected_tools capitals_planner plain_engine example_profile 0 ?st \<noteq> []"
    by (simp add: selected_tools_def capitals_planner_def)
  have n1: "\<not> is_solve_plan (plan_text capitals_planner plain_engine example_profile 0 ?st)"
    by (simp add: capitals_plan could_not_generate_not_solve)
  have "fst (attempt capitals_planner plain_engine example_profile 0 ?st) = Continue"
    by (simp add: attempt_invalid_plan [OF t1 n1])
  with m g capitals_not_solve show ?thesis by simp
qed

lemma forwarding_payload: "forward_override plain_engine example_profile 0 ''7'' = forward_message ''task'' ''7!''"
  by (simp add: forward_override_def plain_post example_profile_def)

text \<open>
  C2 does not hold on the forwarding branch: a pass whose sandbox result asks for further
  processing logs the subtask as \<open>pending\<close> and leaves the lifeline loop without any
  \<open>UpdateSubtaskStatus\<close> event.
\<close>

theorem forward_leaves_subtask_pending:
  "attempt forwarding_run plain_engine example_profile 0
      (step_start example_profile 0 initial_state) =
    (Break,
     \<lparr>ctx_step = 0,
      user_input_override = Some (forward_message ''task'' ''7!''),
      final_answer = None,
      lifelines_left = 1,
      events = [Perception ''task!'',
                Planning (request forwarding_run plain_engine example_profile 0
                            (step_start example_profile 0 initial_state)),
                LogSubtask ''solve_sandbox'' ''pending'',
                Sandbox ''def solve():''],
      attempts = 1\<rparr>)"
proof -
  let ?st = "step_start example_profile 0 initial_state"
  have tools: "selected_tools forwarding_run plain_engine example_profile 0 ?st \<noteq> []"
    by (simp add: forwarding_tools)
  have plan: "is_solve_plan (plan_text forwarding_run plain_engine example_profile 0 ?st)"
    by (simp add: forwarding_plan solve_plan_example)
  have sb: "run_python_sandbox forwarding_run 0 ''def solve():'' = SStr ''FURTHER_PROCESSING_REQUIRED: 7''"
    by (simp add: forwarding_run_def)
  have fpr: "startswith ''FURTHER_PROCESSING_REQUIRED: 7'' ''FURTHER_PROCESSING_REQUIRED:''"
    by (simp add: startswith_def)
  have ci: "current_input plain_engine example_profile 0 ?st = ''task!''"
    by (simp add: current_input_def plain_pre select_input_def step_start_def initial_state_def
        example_profile_def)
  show ?thesis
    unfolding attempt_executes [OF tools plan] forwarding_plan example_start
      execute_forward [OF sb fpr] payload_example forwarding_payload ci
    by (simp add: add_events_def step_start_def initial_state_def example_profile_def)
qed

subsection \<open>The configuration loader\<close>

lemma resolve_section_skip:
  "resolve_section ctor section = Inr None \<longleftrightarrow> entry_disabled section \<or> entry_unknown section"
  by (cases "section")
     (auto simp: resolve_section_def entry_disabled_def entry_unknown_def
           split: sum.splits option.splits)

lemma resolve_sections_acc:
  "resolve_sections ctor secs acc = Inr hs \<Longrightarrow>
   \<exists>new. hs = acc @ new \<and>
         (new = [] \<longleftrightarrow> (\<forall>sec \<in> set secs. resolve_section ctor sec = Inr None))"
proof (induction secs arbitrary: acc)
  case Nil
  then show ?case by simp
next
  case (Cons sec secs)
  show ?case
  proof (cases "resolve_section ctor sec")
    case (Inl e)
    with Cons.prems show ?thesis by simp
  next
    case (Inr r)
    show ?thesis
    proof (cases r)
      case None
      with Inr Cons.prems have "resolve_sections ctor secs acc = Inr hs" by simp
      from Cons.IH [OF this] Inr None show ?thesis by auto
    next
      case (Some h)
      with Inr Cons.prems have "resolve_sections ctor secs (acc @ [h]) = Inr hs" by simp
      from Cons.IH [OF this] obtain new where "hs = (acc @ [h]) @ new" by blast
      then have "hs = acc @ (h # new)" by simp
      with Inr Some show ?thesis by auto
    qed
  qed
qed

lemma resolve_sections_empty:
  assumes "resolve_sections ctor secs [] = Inr hs"
  shows "hs = [] \<longleftrightarrow> (\<forall>sec \<in> set secs. entry_disabled sec \<or> entry_unknown sec)"
  using resolve_sections_acc [OF assms] by (simp add: resolve_section_skip)

text \<open>
  C10, as amended: a file that cannot be opened or parsed gives the ten default units; a
  parsed document that is empty (or otherwise false), or whose root \<open>enabled\<close> is false,
  gives an empty pipeline; for any other parsed document from which the loader returns
  an engine, the defaults are used exactly when no entry of \<open>pre_query\<close> and
  \<open>post_result\<close> yields a unit, that is when there are no entries at all or every entry
  is disabled or has an unknown id; otherwise the engine holds the units of the entries.
\<close>

theorem loader_fallbacks:
  "load_engine_from_config ctor Unreadable = Inr \<lparr>heuristics = default_heuristics ctor\<rparr> \<and>
   (\<not> is_truthy data \<longrightarrow>
      load_engine_from_config ctor (Parsed data) = Inr \<lparr>heuristics = []\<rparr>) \<and>
   (is_truthy data \<and> py_get data ''enabled'' (PBool True) = Inr en \<and> \<not> is_truthy en \<longrightarrow>
      load_engine_from_config ctor (Parsed data) = Inr \<lparr>heuristics = []\<rparr>) \<and>
   (is_truthy data \<and> py_get data ''enabled'' (PBool True) = Inr en \<and> is_truthy en \<and>
    entries data = Inr secs \<and> load_engine_from_config ctor (Parsed data) = Inr eng \<longrightarrow>
      (if \<forall>sec \<in> set secs. entry_disabled sec \<or> entry_unknown sec
       then heuristics eng = default_heuristics ctor
       else heuristics eng \<noteq> [] \<and> resolve_sections ctor secs [] = Inr (heuristics eng)))"
proof -
  have a: "load_engine_from_config ctor Unreadable = Inr \<lparr>heuristics = default_heuristics ctor\<rparr>"
    by (simp add: load_engine_from_config_def)
  have b: "\<not> is_truthy data \<longrightarrow>
      load_engine_from_config ctor (Parsed data) = Inr \<lparr>heuristics = []\<rparr>"
    by (simp add: load_engine_from_config_def)
  have c: "is_truthy data \<and> py_get data ''enabled'' (PBool True) = Inr en \<and> \<not> is_truthy en \<longrightarrow>
      load_engine_from_config ctor (Parsed data) = Inr \<lparr>heuristics = []\<rparr>"
    by (simp add: load_engine_from_config_def)
  have d: "is_truthy data \<and> py_get data ''enabled'' (PBool True) = Inr en \<and> is_truthy en \<and>
    entries data = Inr secs \<and> load_engine_from_config ctor (Parsed data) = Inr eng \<longrightarrow>
      (if \<forall>sec \<in> set secs. entry_disabled sec \<or> entry_unknown sec
       then heuristics eng = default_heuristics ctor
       else heuristics eng \<noteq> [] \<and> resolve_sections ctor secs [] = Inr (heuristics eng))"
  proof (intro impI, elim conjE)
    assume t: "is_truthy data" and en: "py_get data ''enabled'' (PBool True) = Inr en"
      "is_truthy en" and secs: "entries data = Inr secs"
      and l: "load_engine_from_config ctor (Parsed data) = Inr eng"
    from l t en secs obtain hs where r: "resolve_sections ctor secs [] = Inr hs"
      and e: "eng = \<lparr>heuristics = (if hs = [] then default_heuristics ctor else hs)\<rparr>"
      by (auto simp: load_engine_from_config_def entries_def split: sum.splits)
    from resolve_sections_empty [OF r] r e
    show "if \<forall>sec \<in> set secs. entry_disabled sec \<or> entry_unknown sec
       then heuristics eng = default_heuristics ctor
       else heuristics eng \<noteq> [] \<and> resolve_sections ctor secs [] = Inr (heuristics eng)"
      by auto
  qed
  from a b c d show ?thesis by blast
qed

lemma entries_no_entries: "entries doc_no_entries = Inr []"
  by (simp add: entries_def doc_no_entries_def)

lemma load_no_entries:
  "load_engine_from_config quiet_constructors (Parsed doc_no_entries) =
     Inr \<lparr>heuristics = default_heuristics quiet_constructors\<rparr>"
  by (simp add: load_engine_from_config_def doc_no_entries_def)

text \<open>
  The claim as first stated fails on the document \<open>{enabled: true}\<close>: it parses, it is
  not empty, it lists no entries, and the loader returns the ten defaults.
\<close>

theorem loader_fallbacks_counterexample:
  "load_engine_from_config quiet_constructors (Parsed doc_no_entries) =
     Inr \<lparr>heuristics = default_heuristics quiet_constructors\<rparr> \<and>
   length (default_heuristics quiet_constructors) = 10 \<and>
   is_truthy doc_no_entries \<and>
   entries doc_no_entries = Inr []"
proof -
  have "length (default_heuristics quiet_constructors) = 10"
    by (simp add: default_heuristics_def)
  moreover have "is_truthy doc_no_entries"
    by (simp add: doc_no_entries_def)
  ultimately show ?thesis
    using load_no_entries entries_no_entries by blast
qed

lemma entries_all_skipped:
  "entries doc_all_skipped =
     Inr [PDict [(PStr ''id'', PStr ''no_such_heuristic'')],
          PDict [(PStr ''id'', PStr ''timeout_manager''), (PStr ''enabled'', PBool False)]]"
  by (simp add: entries_def doc_all_skipped_def)

lemma load_all_skipped:
  "load_engine_from_config quiet_constructors (Parsed doc_all_skipped) =
     Inr \<lparr>heuristics = default_heuristics quiet_constructors\<rparr>"
  by (simp add: load_engine_from_config_def doc_all_skipped_def resolve_section_def
      ID_TO_CLASS_def)

theorem loader_fallbacks_witness:
  "load_engine_from_config quiet_constructors (Parsed (PDict [])) = Inr \<lparr>heuristics = []\<rparr> \<and>
   load_engine_from_config quiet_constructors (Parsed (PDict [(PStr ''enabled'', PBool False)])) =
     Inr \<lparr>heuristics = []\<rparr> \<and>
   entry_unknown (PDict [(PStr ''id'', PStr ''no_such_heuristic'')]) \<and>
   entry_disabled (PDict [(PStr ''id'', PStr ''timeout_manager''),
                          (PStr ''enabled'', PBool False)]) \<and>
   load_engine_from_config quiet_constructors (Parsed doc_all_skipped) =
     Inr \<lparr>heuristics = default_heuristics quiet_constructors\<rparr>"
proof -
  have sk: "\<forall>sec \<in> set [PDict [(PStr ''id'', PStr ''no_such_heuristic'')],
                  PDict [(PStr ''id'', PStr ''timeout_manager''), (PStr ''enabled'', PBool False)]].
      entry_disabled sec \<or> entry_unknown sec"
    by (simp add: entry_disabled_def entry_unknown_def ID_TO_CLASS_def)
  have t: "is_truthy doc_all_skipped"
    by (simp add: doc_all_skipped_def)
  have en: "py_get doc_all_skipped ''enabled'' (PBool True) = Inr (PBool True)"
    by (simp add: doc_all_skipped_def)
  from loader_fallbacks [of quiet_constructors "PDict []"]
  have a: "load_engine_from_config quiet_constructors (Parsed (PDict [])) = Inr \<lparr>heuristics = []\<rparr>"
    by simp
  from loader_fallbacks [of quiet_constructors "PDict [(PStr ''enabled'', PBool False)]" "PBool False"]
  have b: "load_engine_from_config quiet_constructors (Parsed (PDict [(PStr ''enabled'', PBool False)])) =
     Inr \<lparr>heuristics = []\<rparr>"
    by simp
  from loader_fallbacks [of quiet_constructors doc_all_skipped "PBool True"
      "[PDict [(PStr ''id'', PStr ''no_such_heuristic'')],
          PDict [(PStr ''id'', PStr ''timeout_manager''), (PStr ''enabled'', PBool False)]]"
      "\<lparr>heuristics = default_heuristics quiet_constructors\<rparr>"]
    t en entries_all_skipped load_all_skipped sk
  have c: "heuristics \<lparr>heuristics = default_heuristics quiet_constructors\<rparr> =
     default_heuristics quiet_constructors"
    by simp
  have u: "entry_unknown (PDict [(PStr ''id'', PStr ''no_such_heuristic'')])"
    by (simp add: entry_unknown_def ID_TO_CLASS_def)
  have d: "entry_disabled (PDict [(PStr ''id'', PStr ''timeout_manager''),
                                  (PStr ''enabled'', PBool False)])"
    by (simp add: entry_disabled_def)
  from a b u d c load_all_skipped show ?thesis by blast
qed

subsection \<open>The history retriever\<close>














lemma descending_argsort_sorts: "argsort_sorts descending_argsort"
  by (auto simp: argsort_sorts_def descending_argsort_def)















end
